theory Spec2Isabelle
  imports Main
begin

section \<open>Data model\<close>

text \<open>
  The Django models of the billing app, as the views, the task and the tests use them.
  A datetime is its POSIX timestamp in whole seconds. The value \<open>ERROR\<close> of
  \<open>Customer.PaymentState\<close> is written \<open>PAYMENT_ERROR\<close>, since \<open>StripeEvent.Status\<close>
  has an \<open>ERROR\<close> of its own.
\<close>

datatype PaymentState = OK | OFF | REQUIRES_PAYMENT_METHOD | PAYMENT_ERROR

datatype PlanType = FREE_DEFAULT | FREE_PRIVATE | PAID_PUBLIC

datatype Status = NEW | PENDING | PROCESSED | ERROR

text \<open>
  A parsed JSON value, as the payload of an event and the dictionaries of the processor's
  client are. Numbers are integers. An object is the list of its items; a Python
  dictionary has every key once, and \<open>map_of\<close> reads the first.
\<close>

datatype json =
    JNull
  | JBool bool
  | JInt int
  | JStr string
  | JArr "json list"
  | JObj "(string \<times> json) list"

record Plan =
  plan_pk :: nat
  plan_name :: string
  plan_type :: PlanType
  display_price :: nat
  price_id :: "string option"

record Customer =
  pk :: nat
  customer_id :: "string option"
  subscription_id :: "string option"
  payment_state :: PaymentState
  current_period_end :: "int option"
  plan :: Plan
  cc_info :: "json option"

record StripeEvent =
  event_pk :: nat
  event_type :: string
  payload :: json
  status :: Status
  info :: "string option"

record store =
  customers :: "Customer list"
  events :: "StripeEvent list"

text \<open>
  The exceptions the modelled code can raise. \<open>OutOfRange\<close> is the \<open>ValueError\<close> or
  \<open>OverflowError\<close> of \<open>datetime.fromtimestamp\<close>; \<open>StripeError\<close> is any error of the
  processor's client other than \<open>stripe.error.CardError\<close>.
\<close>

datatype exn =
    KeyError string
  | TypeError
  | IndexError
  | DoesNotExist
  | MultipleObjectsReturned
  | IntegrityError
  | OutOfRange
  | CardError string
  | StripeError

definition try_bind :: "exn + 'a \<Rightarrow> ('a \<Rightarrow> exn + 'b) \<Rightarrow> exn + 'b" where
  "try_bind m f = (case m of Inl e \<Rightarrow> Inl e | Inr x \<Rightarrow> f x)"

section \<open>Python and Django primitives\<close>

text \<open>\<open>obj[key]\<close> with a string key: only a dictionary takes it.\<close>

fun getitem :: "json \<Rightarrow> string \<Rightarrow> exn + json" where
  "getitem (JObj kvs) k = (case map_of kvs k of None \<Rightarrow> Inl (KeyError k) | Some v \<Rightarrow> Inr v)"
| "getitem _ k = Inl TypeError"

text \<open>
  \<open>obj[0]\<close>: the first element of a list, the first character of a string; a dictionary
  parsed from JSON has string keys only, so the key \<open>0\<close> is missing.
\<close>

fun getitem0 :: "json \<Rightarrow> exn + json" where
  "getitem0 (JArr []) = Inl IndexError"
| "getitem0 (JArr (x # xs)) = Inr x"
| "getitem0 (JStr []) = Inl IndexError"
| "getitem0 (JStr (c # cs)) = Inr (JStr [c])"
| "getitem0 (JObj kvs) = Inl (KeyError ''0'')"
| "getitem0 _ = Inl TypeError"

text \<open>
  \<open>datetime.fromtimestamp(x, tz=timezone.utc)\<close>: a number inside the years 1 to 9999
  (a Python \<open>bool\<close> is an \<open>int\<close>).
\<close>

fun fromtimestamp :: "json \<Rightarrow> exn + int" where
  "fromtimestamp (JInt n) =
     (if - 62135596800 \<le> n \<and> n \<le> 253402300799 then Inr n else Inl OutOfRange)"
| "fromtimestamp (JBool b) = Inr (if b then 1 else 0)"
| "fromtimestamp _ = Inl TypeError"

text \<open>\<open>Model.objects.get(...)\<close>: exactly one row, or an exception.\<close>

definition objects_get :: "('a \<Rightarrow> bool) \<Rightarrow> 'a list \<Rightarrow> exn + 'a" where
  "objects_get P rows =
     (case filter P rows of
        [] \<Rightarrow> Inl DoesNotExist
      | [x] \<Rightarrow> Inr x
      | _ \<Rightarrow> Inl MultipleObjectsReturned)"

text \<open>
  The lookup \<open>field=value\<close> on a nullable character field, with a value taken from a
  payload: a string matches the rows that hold it, \<open>None\<close> the rows where the field is
  null. The processor's references are strings; a value of another JSON type is taken to
  match no row.
\<close>

fun field_matches :: "string option \<Rightarrow> json \<Rightarrow> bool" where
  "field_matches v JNull = (v = None)"
| "field_matches v (JStr s) = (v = Some s)"
| "field_matches v _ = False"

text \<open>
  Modelled from the spec: the check constraint of the Customer table, declared in
  \<open>models.py\<close>, which is not among the sources: \<open>paymentState != OFF\<close> implies that
  \<open>subscriptionId\<close> is present. The test \<open>test_customer_payment_state_constraint\<close>
  shows the write of a violating row raising \<open>IntegrityError\<close>.
\<close>

definition payment_state_constraint :: "Customer \<Rightarrow> bool" where
  "payment_state_constraint c = (payment_state c \<noteq> OFF \<longrightarrow> subscription_id c \<noteq> None)"

text \<open>\<open>customer.save()\<close> of a row read from the table: the row with its key is replaced.\<close>

definition save_customer :: "Customer \<Rightarrow> Customer list \<Rightarrow> exn + Customer list" where
  "save_customer c rows =
     (if payment_state_constraint c
      then Inr (map (\<lambda>r. if pk r = pk c then c else r) rows)
      else Inl IntegrityError)"

definition save_event :: "StripeEvent \<Rightarrow> StripeEvent list \<Rightarrow> StripeEvent list" where
  "save_event ev rows = map (\<lambda>r. if event_pk r = event_pk ev then ev else r) rows"

text \<open>\<open>StripeEvent.objects.get(pk=event_id)\<close>\<close>

definition get_event :: "StripeEvent list \<Rightarrow> nat \<Rightarrow> exn + StripeEvent" where
  "get_event rows event_id = objects_get (\<lambda>e. event_pk e = event_id) rows"

text \<open>\<open>Customer.objects.get(subscription_id=ref)\<close> and \<open>Customer.objects.get(customer_id=ref)\<close>\<close>

definition get_by_subscription_id :: "Customer list \<Rightarrow> json \<Rightarrow> exn + Customer" where
  "get_by_subscription_id rows ref = objects_get (\<lambda>c. field_matches (subscription_id c) ref) rows"

definition get_by_customer_id :: "Customer list \<Rightarrow> json \<Rightarrow> exn + Customer" where
  "get_by_customer_id rows ref = objects_get (\<lambda>c. field_matches (customer_id c) ref) rows"

text \<open>The row of a customer, by its key: what \<open>refresh_from_db\<close> reads.\<close>

definition find_customer :: "Customer list \<Rightarrow> nat \<Rightarrow> Customer option" where
  "find_customer rows k = find (\<lambda>r. pk r = k) rows"

text \<open>
  \<open>traceback.format_exc()\<close>: the text of the exception being handled. The stack frames
  are left out; the last line, which names the exception, is kept.
\<close>

fun exn_line :: "exn \<Rightarrow> string" where
  "exn_line (KeyError k) = ''KeyError: '' @ k"
| "exn_line TypeError = ''TypeError''"
| "exn_line IndexError = ''IndexError''"
| "exn_line DoesNotExist = ''DoesNotExist''"
| "exn_line MultipleObjectsReturned = ''MultipleObjectsReturned''"
| "exn_line IntegrityError = ''IntegrityError''"
| "exn_line OutOfRange = ''ValueError''"
| "exn_line (CardError m) = ''CardError: '' @ m"
| "exn_line StripeError = ''StripeError''"

definition format_exc :: "exn \<Rightarrow> string" where
  "format_exc e = ''Traceback (most recent call last): '' @ exn_line e"

section \<open>The event processor (tasks.py)\<close>

text \<open>\<open>event.payload["data"]["object"]\<close>\<close>

definition payload_object :: "StripeEvent \<Rightarrow> exn + json" where
  "payload_object event =
     try_bind (getitem (payload event) ''data'') (\<lambda>d. getitem d ''object'')"

text \<open>\<open>dt.fromtimestamp(invoice["lines"]["data"][0]["period"]["end"], tz=timezone.utc)\<close>\<close>

definition invoice_period_end :: "json \<Rightarrow> exn + int" where
  "invoice_period_end invoice =
     try_bind (getitem invoice ''lines'') (\<lambda>lines.
     try_bind (getitem lines ''data'') (\<lambda>d.
     try_bind (getitem0 d) (\<lambda>line.
     try_bind (getitem line ''period'') (\<lambda>period.
     try_bind (getitem period ''end'') fromtimestamp))))"

text \<open>
  The dictionary comprehension over \<open>cc_info\<close>: iterating a dictionary gives its keys;
  iterating a list gives its elements, and subscripting the list with one of the four
  names raises; the characters of a string are never one of the four names; anything
  else cannot be iterated.
\<close>

definition card_keys :: "string list" where
  "card_keys = [''brand'', ''last4'', ''exp_month'', ''exp_year'']"

fun card_summary :: "json \<Rightarrow> exn + json" where
  "card_summary (JObj kvs) = Inr (JObj (filter (\<lambda>(k, v). k \<in> set card_keys) kvs))"
| "card_summary (JArr xs) =
     (if \<exists>k \<in> set card_keys. JStr k \<in> set xs then Inl TypeError else Inr (JObj []))"
| "card_summary (JStr s) = Inr (JObj [])"
| "card_summary _ = Inl TypeError"

text \<open>
  The body of the \<open>try\<close> after the event has been saved as PENDING is a chain of
  \<open>if\<close>/\<open>elif\<close> on \<open>event.type\<close>; each branch is a definition of its own here.
  \<open>Inl e\<close> is the exception \<open>e\<close> raised inside the body. In every branch the only
  write to the store is \<open>customer.save()\<close>, and no statement after it can raise, so an
  exception leaves the customers as they were. Logging is left out; \<open>customer.state\<close>
  is read in the \<open>incomplete_expired\<close> branch only to choose whether to log.
\<close>

text \<open>The branch of \<open>invoice.paid\<close>: a successful renewal.\<close>

definition on_invoice_paid :: "Customer list \<Rightarrow> StripeEvent \<Rightarrow> exn + (Customer list \<times> StripeEvent)" where
  "on_invoice_paid rows event =
     try_bind (payload_object event) (\<lambda>invoice.
     try_bind (getitem invoice ''billing_reason'') (\<lambda>reason.
       if reason = JStr ''subscription_cycle'' then
         try_bind (getitem invoice ''subscription'') (\<lambda>ref.
         try_bind (get_by_subscription_id rows ref) (\<lambda>customer.
         try_bind (invoice_period_end invoice) (\<lambda>period_end.
         try_bind (save_customer (customer\<lparr>current_period_end := Some period_end\<rparr>) rows) (\<lambda>rows'.
           Inr (rows', event\<lparr>status := PROCESSED\<rparr>)))))
       else
         Inr (rows, event\<lparr>info := Some ''Subscription creation webhook. No action was taken.'',
                           status := PROCESSED\<rparr>)))"

text \<open>
  The branch of \<open>customer.subscription.updated\<close> and \<open>customer.subscription.deleted\<close>:
  what is done with the customer found, by the status of the payload.
\<close>

definition on_subscription_status ::
  "Customer list \<Rightarrow> StripeEvent \<Rightarrow> Customer \<Rightarrow> json \<Rightarrow> exn + (Customer list \<times> StripeEvent)" where
  "on_subscription_status rows event customer st =
     (if st = JStr ''past_due'' then
        try_bind (save_customer (customer\<lparr>payment_state := REQUIRES_PAYMENT_METHOD\<rparr>) rows) (\<lambda>rows'.
          Inr (rows', event\<lparr>status := PROCESSED\<rparr>))
      else if st = JStr ''canceled'' then
        try_bind (save_customer (customer\<lparr>subscription_id := None, payment_state := OFF\<rparr>) rows) (\<lambda>rows'.
          Inr (rows', event\<lparr>status := PROCESSED\<rparr>))
      else if st = JStr ''incomplete_expired'' then
        try_bind (save_customer (customer\<lparr>subscription_id := None, payment_state := OFF\<rparr>) rows) (\<lambda>rows'.
          Inr (rows', event\<lparr>status := PROCESSED\<rparr>))
      else
        Inr (rows, event\<lparr>info := Some ''Payload 'status' is not actionable. No action was taken.'',
                          status := PROCESSED\<rparr>))"

definition on_subscription_changed :: "Customer list \<Rightarrow> StripeEvent \<Rightarrow> exn + (Customer list \<times> StripeEvent)" where
  "on_subscription_changed rows event =
     try_bind (payload_object event) (\<lambda>subscription.
     try_bind (getitem subscription ''id'') (\<lambda>ref.
     try_bind (get_by_subscription_id rows ref) (\<lambda>customer.
     try_bind (getitem subscription ''status'') (\<lambda>st.
       on_subscription_status rows event customer st))))"

text \<open>The branch of \<open>payment_method.automatically_updated\<close>.\<close>

definition on_card_updated :: "Customer list \<Rightarrow> StripeEvent \<Rightarrow> exn + (Customer list \<times> StripeEvent)" where
  "on_card_updated rows event =
     try_bind (payload_object event) (\<lambda>payment_method.
     try_bind (getitem payment_method ''customer'') (\<lambda>ref.
     try_bind (get_by_customer_id rows ref) (\<lambda>customer.
     try_bind (getitem payment_method ''card'') (\<lambda>card.
     try_bind (card_summary card) (\<lambda>summary.
     try_bind (save_customer (customer\<lparr>cc_info := Some summary\<rparr>) rows) (\<lambda>rows'.
       Inr (rows', event\<lparr>status := PROCESSED\<rparr>)))))))"

text \<open>The last \<open>else\<close>: the type is not recognized.\<close>

definition on_unrecognized :: "Customer list \<Rightarrow> StripeEvent \<Rightarrow> exn + (Customer list \<times> StripeEvent)" where
  "on_unrecognized rows event =
     Inr (rows, event\<lparr>status := ERROR,
                       info := Some (''StripeEvent type '' @ [CHR 0x27] @ event_type event
                                       @ [CHR 0x27] @ '' not recognized.'')\<rparr>)"

definition dispatch :: "Customer list \<Rightarrow> StripeEvent \<Rightarrow> exn + (Customer list \<times> StripeEvent)" where
  "dispatch rows event =
    (if event_type event = ''invoice.paid'' then on_invoice_paid rows event
     else if event_type event = ''customer.subscription.updated''
           \<or> event_type event = ''customer.subscription.deleted'' then on_subscription_changed rows event
     else if event_type event = ''payment_method.automatically_updated'' then on_card_updated rows event
     else on_unrecognized rows event)"

text \<open>
  \<open>except Exception as e\<close>: an exception raised in the body becomes status ERROR, with
  the traceback as \<open>info\<close>, on the event as it was when the body started.
\<close>

definition except_exception ::
  "Customer list \<Rightarrow> StripeEvent \<Rightarrow> exn + (Customer list \<times> StripeEvent) \<Rightarrow> Customer list \<times> StripeEvent" where
  "except_exception rows event r =
     (case r of
        Inr done \<Rightarrow> done
      | Inl e \<Rightarrow> (rows, event\<lparr>status := ERROR, info := Some (format_exc e)\<rparr>))"

text \<open>
  \<open>process_stripe_event(event_id)\<close>. The event is read before the \<open>try\<close>, so a
  missing event raises out of the function. Inside, the event is saved as PENDING, the
  body runs, and \<open>finally\<close> saves the event. Saving an event row is taken to succeed.
\<close>

definition process_stripe_event :: "store \<Rightarrow> nat \<Rightarrow> exn + store" where
  "process_stripe_event s event_id =
     try_bind (get_event (events s) event_id) (\<lambda>event0.
       let event = event0\<lparr>status := PENDING\<rparr>;
           s1 = s\<lparr>events := save_event event (events s)\<rparr>;
           (rows', event') = except_exception (customers s1) event (dispatch (customers s1) event)
       in Inr (s1\<lparr>customers := rows', events := save_event event' (events s1)\<rparr>))"

section \<open>The state of a customer\<close>

text \<open>
  Modelled from the spec: \<open>Customer.state\<close> (\<open>deriveState\<close>), a property declared in
  \<open>models.py\<close>, which is not among the sources. The model is the table of section 4.1:
  one entry per row, in the order of the table, and the first row that matches gives the
  label; a customer no row matches is \<open>unknown\<close>. The bucket of a row is the type of the
  customer's plan. A period is expired when \<open>currentPeriodEnd\<close> is present and at or
  before \<open>now\<close>. The row "PAID_PUBLIC, any, expired, not OFF-immediate" is read as every
  payment state but OFF, and the row of an expired FREE_PRIVATE period carries the label
  the table names for it, \<open>free_default.canceled\<close>.
\<close>

datatype Period = Absent | Expired | NotExpired

definition period_of :: "int option \<Rightarrow> int \<Rightarrow> Period" where
  "period_of period_end now =
     (case period_end of
        None \<Rightarrow> Absent
      | Some t \<Rightarrow> if t \<le> now then Expired else NotExpired)"

record StateRule =
  rule_plan :: PlanType
  rule_payment :: "PaymentState list"
  rule_period :: Period
  rule_subscription :: "bool option"
  rule_label :: string

definition any_payment :: "PaymentState list" where
  "any_payment = [OK, OFF, REQUIRES_PAYMENT_METHOD, PAYMENT_ERROR]"

definition state_table :: "StateRule list" where
  "state_table =
    [\<lparr>rule_plan = FREE_DEFAULT, rule_payment = [OFF], rule_period = Absent,
      rule_subscription = Some False, rule_label = ''free_default.new''\<rparr>,
     \<lparr>rule_plan = FREE_DEFAULT, rule_payment = [OFF], rule_period = Absent,
      rule_subscription = Some True, rule_label = ''free_default.canceled.incomplete''\<rparr>,
     \<lparr>rule_plan = FREE_DEFAULT, rule_payment = [OFF], rule_period = Expired,
      rule_subscription = None, rule_label = ''free_default.canceled''\<rparr>,
     \<lparr>rule_plan = FREE_DEFAULT, rule_payment = [REQUIRES_PAYMENT_METHOD], rule_period = Absent,
      rule_subscription = None, rule_label = ''free_default.incomplete.requires_payment_method''\<rparr>,
     \<lparr>rule_plan = FREE_DEFAULT, rule_payment = [REQUIRES_PAYMENT_METHOD], rule_period = Expired,
      rule_subscription = None, rule_label = ''free_default.past_due.requires_payment_method''\<rparr>,
     \<lparr>rule_plan = PAID_PUBLIC, rule_payment = [OK], rule_period = NotExpired,
      rule_subscription = None, rule_label = ''paid.paying''\<rparr>,
     \<lparr>rule_plan = PAID_PUBLIC, rule_payment = [OFF], rule_period = NotExpired,
      rule_subscription = None, rule_label = ''paid.will_cancel''\<rparr>,
     \<lparr>rule_plan = PAID_PUBLIC, rule_payment = [OFF], rule_period = Expired,
      rule_subscription = None, rule_label = ''free_default.canceled''\<rparr>,
     \<lparr>rule_plan = PAID_PUBLIC, rule_payment = [REQUIRES_PAYMENT_METHOD], rule_period = NotExpired,
      rule_subscription = None, rule_label = ''paid.past_due.requires_payment_method''\<rparr>,
     \<lparr>rule_plan = PAID_PUBLIC, rule_payment = [OK, REQUIRES_PAYMENT_METHOD, PAYMENT_ERROR],
      rule_period = Expired, rule_subscription = None, rule_label = ''paid.canceled''\<rparr>,
     \<lparr>rule_plan = FREE_PRIVATE, rule_payment = any_payment, rule_period = Absent,
      rule_subscription = None, rule_label = ''free_private.indefinite''\<rparr>,
     \<lparr>rule_plan = FREE_PRIVATE, rule_payment = any_payment, rule_period = NotExpired,
      rule_subscription = None, rule_label = ''free_private.will_expire''\<rparr>,
     \<lparr>rule_plan = FREE_PRIVATE, rule_payment = any_payment, rule_period = Expired,
      rule_subscription = None, rule_label = ''free_default.canceled''\<rparr>]"

definition rule_matches :: "Customer \<Rightarrow> int \<Rightarrow> StateRule \<Rightarrow> bool" where
  "rule_matches c now r =
     (plan_type (plan c) = rule_plan r
      \<and> payment_state c \<in> set (rule_payment r)
      \<and> period_of (current_period_end c) now = rule_period r
      \<and> (case rule_subscription r of
            None \<Rightarrow> True
          | Some present \<Rightarrow> (subscription_id c \<noteq> None) = present))"

definition deriveState :: "Customer \<Rightarrow> int \<Rightarrow> string" where
  "deriveState c now =
     (case find (rule_matches c now) state_table of
        None \<Rightarrow> ''unknown''
      | Some r \<Rightarrow> rule_label r)"

section \<open>The limits of a plan\<close>

record Limit =
  limit_name :: string
  limit_default :: int

record PlanLimit =
  planlimit_plan :: nat
  planlimit_limit :: string
  planlimit_value :: int

text \<open>
  Modelled from the spec: \<open>Customer.get_limit\<close> (\<open>getLimit\<close>), a method declared in
  \<open>models.py\<close>, which is not among the sources; the model is the algorithm of section
  4.2. The plan is expired by the test of section 4.1: the period end is present and at
  or before \<open>now\<close>, or it is absent and the plan is PAID_PUBLIC; a FREE_PRIVATE plan
  with no period end is indefinite, a FREE_DEFAULT plan never expires. A PlanLimit names
  its plan by key and its Limit by name. \<open>NotFoundError\<close> is \<open>DoesNotExist\<close>.
\<close>

definition plan_expired :: "Customer \<Rightarrow> int \<Rightarrow> bool" where
  "plan_expired c now =
     (case plan_type (plan c) of
        FREE_DEFAULT \<Rightarrow> False
      | PAID_PUBLIC \<Rightarrow> period_of (current_period_end c) now \<noteq> NotExpired
      | FREE_PRIVATE \<Rightarrow> period_of (current_period_end c) now = Expired)"

definition effective_plan :: "Plan \<Rightarrow> Customer \<Rightarrow> int \<Rightarrow> Plan" where
  "effective_plan free_default c now = (if plan_expired c now then free_default else plan c)"

definition getLimit ::
  "Limit list \<Rightarrow> PlanLimit list \<Rightarrow> Plan \<Rightarrow> Customer \<Rightarrow> string \<Rightarrow> int \<Rightarrow> exn + int" where
  "getLimit limits plan_limits free_default c name now =
     (case find (\<lambda>l. limit_name l = name) limits of
        None \<Rightarrow> Inl DoesNotExist
      | Some l \<Rightarrow>
          (case find (\<lambda>pl. planlimit_plan pl = plan_pk (effective_plan free_default c now)
                            \<and> planlimit_limit pl = name) plan_limits of
             Some pl \<Rightarrow> Inr (planlimit_value pl)
           | None \<Rightarrow> Inr (limit_default l)))"

section \<open>The command handlers (views/api.py)\<close>

text \<open>
  What a view gives back: a response with its status code, the \<open>ValidationError\<close> of
  the REST framework (a response 400 with the message), or any other exception, which
  leaves the view.
\<close>

datatype outcome = Response nat | ValidationError string | Raised exn

text \<open>\<open>except stripe.error.CardError as e: raise ValidationError(e.error.message)\<close>\<close>

definition except_card_error :: "exn \<Rightarrow> outcome" where
  "except_card_error e = (case e of CardError m \<Rightarrow> ValidationError m | _ \<Rightarrow> Raised e)"

text \<open>The truth value of a nullable string: \<open>None\<close> and the empty string are false.\<close>

definition truthy :: "string option \<Rightarrow> bool" where
  "truthy v = (case v of None \<Rightarrow> False | Some s \<Rightarrow> s \<noteq> [])"

text \<open>
  The attributes read from the subscription object that
  \<open>services.stripe_create_subscription\<close> returns.
\<close>

record Subscription =
  sub_id :: string
  sub_status :: string
  sub_current_period_end :: json

text \<open>
  The functions of \<open>services\<close> call the processor and are not among the sources. What
  each call returns, or the exception it raises, is an argument of the handler that
  makes the call. The handlers are modelled on the billing attributes of the customer;
  what the services do to \<open>cc_info\<close> is left out. \<open>request.user.customer\<close> is the row
  with the key of the user's customer.
\<close>

text \<open>
  \<open>CreateSubscriptionAPIView.post\<close>, lines 27 to 35: a customer with no \<open>customer_id\<close>
  gets the one of \<open>services.stripe_create_customer\<close> and is saved.
\<close>

definition ensure_customer_id ::
  "Customer list \<Rightarrow> Customer \<Rightarrow> exn + string option \<Rightarrow> outcome + (Customer \<times> Customer list)" where
  "ensure_customer_id rows customer stripe_customer =
     (if truthy (customer_id customer) then Inr (customer, rows)
      else
        (case stripe_customer of
           Inl e \<Rightarrow> Inl (Raised e)
         | Inr None \<Rightarrow>
             Inl (ValidationError ''These was a problem connecting to Stripe. Please try again.'')
         | Inr (Some new_id) \<Rightarrow>
             (case save_customer (customer\<lparr>customer_id := Some new_id\<rparr>) rows of
                Inl e \<Rightarrow> Inl (Raised e)
              | Inr rows' \<Rightarrow> Inr (customer\<lparr>customer_id := Some new_id\<rparr>, rows'))))"

text \<open>
  Lines 49 to 67, on the customer that already carries the new \<open>subscription_id\<close> and
  \<open>plan\<close>.
\<close>

definition record_subscription ::
  "Customer list \<Rightarrow> Customer \<Rightarrow> Subscription \<Rightarrow> outcome \<times> Customer list" where
  "record_subscription rows customer subscription =
     (if sub_status subscription = ''active'' then
        (case fromtimestamp (sub_current_period_end subscription) of
           Inl e \<Rightarrow> (Raised e, rows)
         | Inr period_end \<Rightarrow>
             (case save_customer (customer\<lparr>current_period_end := Some period_end,
                                            payment_state := OK\<rparr>) rows of
                Inl e \<Rightarrow> (Raised e, rows)
              | Inr rows' \<Rightarrow> (Response 201, rows')))
      else
        (case save_customer (customer\<lparr>current_period_end := None,
                                       payment_state := REQUIRES_PAYMENT_METHOD\<rparr>) rows of
           Inl e \<Rightarrow> (Raised e, rows)
         | Inr rows' \<Rightarrow>
             (ValidationError ''Payment could not be processed. Please try again or use another card.'',
              rows')))"

text \<open>
  \<open>CreateSubscriptionAPIView.post\<close> after the serializer has accepted the request:
  \<open>new_plan\<close> is \<open>serializer.plan\<close>. The serializer is not among the sources.
\<close>

definition create_subscription_post ::
  "Customer list \<Rightarrow> nat \<Rightarrow> Plan \<Rightarrow> exn + string option \<Rightarrow> exn + Subscription \<Rightarrow> exn + unit
     \<Rightarrow> outcome \<times> Customer list" where
  "create_subscription_post rows user_customer new_plan stripe_customer stripe_subscription sync =
     (case find_customer rows user_customer of
        None \<Rightarrow> (Raised DoesNotExist, rows)
      | Some customer0 \<Rightarrow>
          (case ensure_customer_id rows customer0 stripe_customer of
             Inl out \<Rightarrow> (out, rows)
           | Inr (customer, rows1) \<Rightarrow>
               (case stripe_subscription of
                  Inl e \<Rightarrow> (except_card_error e, rows1)
                | Inr subscription \<Rightarrow>
                    (case sync of
                       Inl e \<Rightarrow> (Raised e, rows1)
                     | Inr _ \<Rightarrow>
                         record_subscription rows1
                           (customer\<lparr>subscription_id := Some (sub_id subscription), plan := new_plan\<rparr>)
                           subscription))))"

text \<open>
  \<open>CureFailedCardAPIView.post\<close>, lines 91 to 97, inside the \<open>try\<close>: the invoice that
  \<open>services.stripe_retry_latest_invoice\<close> returned.
\<close>

definition cure_with_invoice :: "Customer list \<Rightarrow> Customer \<Rightarrow> json \<Rightarrow> outcome \<times> Customer list" where
  "cure_with_invoice rows customer invoice =
     (case getitem invoice ''status'' of
        Inl e \<Rightarrow> (except_card_error e, rows)
      | Inr st \<Rightarrow>
          if st = JStr ''paid'' then
            (case invoice_period_end invoice of
               Inl e \<Rightarrow> (except_card_error e, rows)
             | Inr period_end \<Rightarrow>
                 (case save_customer (customer\<lparr>current_period_end := Some period_end,
                                                payment_state := OK\<rparr>) rows of
                    Inl e \<Rightarrow> (except_card_error e, rows)
                  | Inr rows' \<Rightarrow> (Response 201, rows')))
          else (Response 201, rows))"

text \<open>
  \<open>CureFailedCardAPIView.post\<close>. \<open>has_payment_method\<close>: the request data has the key
  \<open>payment_method_id\<close>.
\<close>

definition cure_failed_card_post ::
  "Customer list \<Rightarrow> nat \<Rightarrow> bool \<Rightarrow> exn + unit \<Rightarrow> exn + json \<Rightarrow> outcome \<times> Customer list" where
  "cure_failed_card_post rows user_customer has_payment_method replace_card retry_invoice =
     (if \<not> has_payment_method then (ValidationError ''No payment_method_id provided.'', rows)
      else
        (case find_customer rows user_customer of
           None \<Rightarrow> (Raised DoesNotExist, rows)
         | Some customer \<Rightarrow>
             if truthy (subscription_id customer)
                \<and> payment_state customer = REQUIRES_PAYMENT_METHOD then
               (case replace_card of
                  Inl e \<Rightarrow> (except_card_error e, rows)
                | Inr _ \<Rightarrow>
                    (case save_customer customer rows of
                       Inl e \<Rightarrow> (except_card_error e, rows)
                     | Inr rows1 \<Rightarrow>
                         (case retry_invoice of
                            Inl e \<Rightarrow> (except_card_error e, rows1)
                          | Inr invoice \<Rightarrow> cure_with_invoice rows1 customer invoice)))
             else (ValidationError ''You cannot cure a failed payment for this customer.'', rows)))"

text \<open>
  Modelled from the spec: \<open>Customer.cancel_subscription(immediate=False)\<close>, a method
  declared in \<open>models.py\<close>, which is not among the sources. With the payment already OFF
  nothing is changed and the caller is told so; otherwise the processor is called and
  \<open>paymentState\<close> becomes OFF, \<open>subscriptionId\<close> and \<open>currentPeriodEnd\<close> staying.
\<close>

definition cancel_subscription ::
  "Customer list \<Rightarrow> Customer \<Rightarrow> exn + unit \<Rightarrow> exn + (bool \<times> Customer list)" where
  "cancel_subscription rows customer modify =
     (if payment_state customer = OFF then Inr (False, rows)
      else
        try_bind modify (\<lambda>_.
        try_bind (save_customer (customer\<lparr>payment_state := OFF\<rparr>) rows) (\<lambda>rows'.
          Inr (True, rows'))))"

text \<open>\<open>CancelSubscriptionAPIView.post\<close>\<close>

definition cancel_subscription_post ::
  "Customer list \<Rightarrow> nat \<Rightarrow> exn + unit \<Rightarrow> outcome \<times> Customer list" where
  "cancel_subscription_post rows user_customer modify =
     (case find_customer rows user_customer of
        None \<Rightarrow> (Raised DoesNotExist, rows)
      | Some customer \<Rightarrow>
          (case cancel_subscription rows customer modify of
             Inl e \<Rightarrow> (Raised e, rows)
           | Inr (done, rows') \<Rightarrow>
               if \<not> done then (ValidationError ''No active subscription to cancel.'', rows')
               else (Response 201, rows')))"

text \<open>\<open>ReactivateSubscriptionAPIView.post\<close>, at the time \<open>now\<close>.\<close>

definition reactivate_subscription_post ::
  "int \<Rightarrow> Customer list \<Rightarrow> nat \<Rightarrow> exn + unit \<Rightarrow> outcome \<times> Customer list" where
  "reactivate_subscription_post now rows user_customer reactivate =
     (case find_customer rows user_customer of
        None \<Rightarrow> (Raised DoesNotExist, rows)
      | Some customer \<Rightarrow>
          if deriveState customer now = ''paid.will_cancel'' then
            (case reactivate of
               Inl e \<Rightarrow> (Raised e, rows)
             | Inr _ \<Rightarrow>
                 (case save_customer (customer\<lparr>payment_state := OK\<rparr>) rows of
                    Inl e \<Rightarrow> (Raised e, rows)
                  | Inr rows' \<Rightarrow> (Response 201, rows')))
          else (ValidationError ''You cannot reactivate this subscription.'', rows))"

text \<open>\<open>ReplaceCardAPIView.post\<close>\<close>

definition replace_card_post ::
  "Customer list \<Rightarrow> nat \<Rightarrow> bool \<Rightarrow> exn + unit \<Rightarrow> outcome \<times> Customer list" where
  "replace_card_post rows user_customer has_payment_method replace_card =
     (if \<not> has_payment_method then (ValidationError ''No payment_method_id provided.'', rows)
      else
        (case find_customer rows user_customer of
           None \<Rightarrow> (Raised DoesNotExist, rows)
         | Some customer \<Rightarrow>
             if truthy (subscription_id customer) \<and> payment_state customer \<noteq> OFF then
               (case replace_card of
                  Inl e \<Rightarrow> (except_card_error e, rows)
                | Inr _ \<Rightarrow>
                    (case save_customer customer rows of
                       Inl e \<Rightarrow> (Raised e, rows)
                     | Inr rows' \<Rightarrow> (Response 201, rows')))
             else (ValidationError ''You cannot replace card for this customer.'', rows)))"

section \<open>The states the store can reach\<close>

text \<open>
  Modelled from the spec: the creation of a customer, alongside its account. The signal
  that does it is declared in \<open>models.py\<close>, which is not among the sources. The row is
  inserted under the same check constraint as every write.
\<close>

definition insert_customer :: "Customer \<Rightarrow> Customer list \<Rightarrow> exn + Customer list" where
  "insert_customer c rows =
     (if payment_state_constraint c then Inr (rows @ [c]) else Inl IntegrityError)"

text \<open>
  The Customer tables that can be reached from the empty one by creating customers,
  processing events and running the command handlers, with any request and any answer of
  the processor.
\<close>

inductive reachable :: "Customer list \<Rightarrow> bool" where
  initial: "reachable []"
| created:
    "reachable rows \<Longrightarrow> insert_customer c rows = Inr rows' \<Longrightarrow> reachable rows'"
| event_processed:
    "reachable (customers s) \<Longrightarrow> process_stripe_event s event_id = Inr s' \<Longrightarrow> reachable (customers s')"
| subscription_created:
    "reachable rows \<Longrightarrow>
     create_subscription_post rows k new_plan stripe_customer stripe_subscription sync = (out, rows')
     \<Longrightarrow> reachable rows'"
| card_cured:
    "reachable rows \<Longrightarrow>
     cure_failed_card_post rows k has_payment_method replace_card retry_invoice = (out, rows')
     \<Longrightarrow> reachable rows'"
| subscription_canceled:
    "reachable rows \<Longrightarrow> cancel_subscription_post rows k modify = (out, rows') \<Longrightarrow> reachable rows'"
| subscription_reactivated:
    "reachable rows \<Longrightarrow> reactivate_subscription_post now rows k reactivate = (out, rows')
     \<Longrightarrow> reachable rows'"
| card_replaced:
    "reachable rows \<Longrightarrow> replace_card_post rows k has_payment_method replace_card = (out, rows')
     \<Longrightarrow> reachable rows'"

section \<open>Fixtures of the tests\<close>

text \<open>
  The plans and customers the tests build: the FREE_DEFAULT plan, a plan of
  \<open>PlanFactory(paid=True)\<close>, the customer of \<open>UserFactory()\<close> and the paying
  customer with subscription \<open>sub\<close> of \<open>StripeWebhookAPITest.setUp\<close>. The factories
  are not among the sources; keys, names and the period end are chosen here.
\<close>

definition free_default_plan :: Plan where
  "free_default_plan = \<lparr>plan_pk = 1, plan_name = ''Default (Free)'', plan_type = FREE_DEFAULT,
     display_price = 0, price_id = None\<rparr>"

definition paid_plan :: Plan where
  "paid_plan = \<lparr>plan_pk = 2, plan_name = ''Paid Plan'', plan_type = PAID_PUBLIC,
     display_price = 10, price_id = Some ''price_paid''\<rparr>"

definition new_customer :: Customer where
  "new_customer = \<lparr>pk = 2, customer_id = None, subscription_id = None, payment_state = OFF,
     current_period_end = None, plan = free_default_plan, cc_info = None\<rparr>"

definition paying_customer :: Customer where
  "paying_customer = \<lparr>pk = 1, customer_id = Some ''cus_1'', subscription_id = Some ''sub'',
     payment_state = OK, current_period_end = Some 1700000000, plan = paid_plan, cc_info = None\<rparr>"

text \<open>The event the webhook view stores for a posted payload, with \<open>data.object\<close> given.\<close>

definition webhook_event :: "string \<Rightarrow> json \<Rightarrow> StripeEvent" where
  "webhook_event t obj =
     \<lparr>event_pk = 1, event_type = t,
      payload = JObj [(''id'', JStr ''evt_test''), (''object'', JStr ''event''), (''type'', JStr t),
                      (''data'', JObj [(''object'', obj)])],
      status = NEW, info = None\<rparr>"

definition webhook_store :: "StripeEvent \<Rightarrow> store" where
  "webhook_store ev = \<lparr>customers = [paying_customer, new_customer], events = [ev]\<rparr>"

text \<open>
  The limits of \<open>LimitTest\<close>: \<open>setUp\<close> gives the paid plan two PlanLimits and leaves
  \<open>Limit 3\<close> with its default; \<open>test_get_limit_expired_plan\<close> gives the FREE_DEFAULT
  plan a PlanLimit for \<open>Limit 1\<close>.
\<close>

definition limit_fixtures :: "Limit list" where
  "limit_fixtures =
     [\<lparr>limit_name = ''Limit 1'', limit_default = 99\<rparr>,
      \<lparr>limit_name = ''Limit 2'', limit_default = 98\<rparr>,
      \<lparr>limit_name = ''Limit 3'', limit_default = 97\<rparr>]"

definition plan_limit_fixtures :: "PlanLimit list" where
  "plan_limit_fixtures =
     [\<lparr>planlimit_plan = 2, planlimit_limit = ''Limit 1'', planlimit_value = 1\<rparr>,
      \<lparr>planlimit_plan = 2, planlimit_limit = ''Limit 2'', planlimit_value = 2\<rparr>,
      \<lparr>planlimit_plan = 1, planlimit_limit = ''Limit 1'', planlimit_value = 50\<rparr>]"

section \<open>The rows of the state table, without their labels\<close>



section \<open>Exceptions, lookups and saves\<close>

lemma try_bind_Inr_iff:
  "(try_bind m f = Inr y) = (\<exists>x. m = Inr x \<and> f x = Inr y)"
  by (cases m) (simp_all add: try_bind_def)

lemma try_bind_Inr [simp]: "try_bind (Inr x) f = f x"
  by (simp add: try_bind_def)

lemma try_bind_Inl [simp]: "try_bind (Inl e) f = Inl e"
  by (simp add: try_bind_def)

lemma objects_get_Inr_iff:
  "(objects_get P rows = Inr x) = (filter P rows = [x])"
  by (simp add: objects_get_def split: list.splits)

lemma objects_get_member:
  assumes "objects_get P rows = Inr x"
  shows "x \<in> set rows \<and> P x"
proof -
  from assms have "filter P rows = [x]" by (simp add: objects_get_Inr_iff)
  then have "x \<in> set (filter P rows)" by simp
  then show ?thesis by simp
qed

lemma filter_save_event:
  "event_pk ev = k \<Longrightarrow>
   filter (\<lambda>e. event_pk e = k) (save_event ev rows)
     = map (\<lambda>_. ev) (filter (\<lambda>e. event_pk e = k) rows)"
  by (induction rows) (auto simp: save_event_def)

lemma get_event_save_event:
  assumes "get_event rows k = Inr ev0" and "event_pk ev = k"
  shows "get_event (save_event ev rows) k = Inr ev"
  using assms by (simp add: get_event_def objects_get_Inr_iff filter_save_event)

lemma save_customer_Inr_iff:
  "(save_customer c rows = Inr rows') =
   (payment_state_constraint c \<and> rows' = map (\<lambda>r. if pk r = pk c then c else r) rows)"
  by (auto simp: save_customer_def)

lemma find_customer_save_same:
  assumes "save_customer c rows = Inr rows'" and "x \<in> set rows" and "pk x = pk c"
  shows "find_customer rows' (pk c) = Some c"
proof -
  from assms(1) have r: "rows' = map (\<lambda>r. if pk r = pk c then c else r) rows"
    by (simp add: save_customer_Inr_iff)
  from assms(2,3) show ?thesis unfolding r find_customer_def
    by (induction rows) auto
qed

lemma find_customer_save_other:
  assumes "save_customer c rows = Inr rows'" and "k \<noteq> pk c"
  shows "find_customer rows' k = find_customer rows k"
proof -
  from assms(1) have r: "rows' = map (\<lambda>r. if pk r = pk c then c else r) rows"
    by (simp add: save_customer_Inr_iff)
  from assms(2) show ?thesis unfolding r find_customer_def
    by (induction rows) auto
qed

lemma on_invoice_paid_result:
  assumes "on_invoice_paid rows event = Inr (rows', event')"
  shows "event_pk event' = event_pk event \<and> event_type event' = event_type event
       \<and> payload event' = payload event \<and> status event' = PROCESSED"
proof -
  from assms obtain invoice reason where
    a: "(if reason = JStr ''subscription_cycle'' then
         try_bind (getitem invoice ''subscription'') (\<lambda>ref.
         try_bind (get_by_subscription_id rows ref) (\<lambda>customer.
         try_bind (invoice_period_end invoice) (\<lambda>period_end.
         try_bind (save_customer (customer\<lparr>current_period_end := Some period_end\<rparr>) rows) (\<lambda>rows'.
           Inr (rows', event\<lparr>status := PROCESSED\<rparr>)))))
       else
         Inr (rows, event\<lparr>info := Some ''Subscription creation webhook. No action was taken.'',
                           status := PROCESSED\<rparr>)) = Inr (rows', event')"
    unfolding on_invoice_paid_def try_bind_Inr_iff by blast
  show ?thesis
  proof (cases "reason = JStr ''subscription_cycle''")
    case True
    with a show ?thesis by (auto simp: try_bind_Inr_iff)
  next
    case False
    with a show ?thesis by auto
  qed
qed

lemma on_subscription_status_result:
  assumes "on_subscription_status rows event customer st = Inr (rows', event')"
  shows "event_pk event' = event_pk event \<and> event_type event' = event_type event
       \<and> payload event' = payload event \<and> status event' = PROCESSED"
  using assms unfolding on_subscription_status_def
  by (auto simp: try_bind_Inr_iff split: if_splits)

lemma on_subscription_changed_result:
  assumes "on_subscription_changed rows event = Inr (rows', event')"
  shows "event_pk event' = event_pk event \<and> event_type event' = event_type event
       \<and> payload event' = payload event \<and> status event' = PROCESSED"
proof -
  from assms obtain customer st where
    "on_subscription_status rows event customer st = Inr (rows', event')"
    unfolding on_subscription_changed_def try_bind_Inr_iff by blast
  then show ?thesis by (rule on_subscription_status_result)
qed

lemma on_card_updated_result:
  assumes "on_card_updated rows event = Inr (rows', event')"
  shows "event_pk event' = event_pk event \<and> event_type event' = event_type event
       \<and> payload event' = payload event \<and> status event' = PROCESSED"
proof -
  from assms obtain rows2 where "Inr (rows2, event\<lparr>status := PROCESSED\<rparr>) = (Inr (rows', event') :: exn + (Customer list \<times> StripeEvent))"
    unfolding on_card_updated_def try_bind_Inr_iff by blast
  then show ?thesis by auto
qed

lemma on_unrecognized_result:
  assumes "on_unrecognized rows event = Inr (rows', event')"
  shows "event_pk event' = event_pk event \<and> event_type event' = event_type event
       \<and> payload event' = payload event \<and> status event' = ERROR"
  using assms by (auto simp: on_unrecognized_def)

lemma dispatch_result:
  assumes "dispatch rows event = Inr (rows', event')"
  shows "event_pk event' = event_pk event \<and> event_type event' = event_type event
       \<and> payload event' = payload event \<and> (status event' = PROCESSED \<or> status event' = ERROR)"
proof -
  consider (a) "on_invoice_paid rows event = Inr (rows', event')"
    | (b) "on_subscription_changed rows event = Inr (rows', event')"
    | (c) "on_card_updated rows event = Inr (rows', event')"
    | (d) "on_unrecognized rows event = Inr (rows', event')"
    using assms unfolding dispatch_def by (simp split: if_splits)
  then show ?thesis
  proof cases
    case a then show ?thesis using on_invoice_paid_result by blast
  next
    case b then show ?thesis using on_subscription_changed_result by blast
  next
    case c then show ?thesis using on_card_updated_result by blast
  next
    case d then show ?thesis using on_unrecognized_result by blast
  qed
qed


lemma get_event_pk: "get_event rows k = Inr ev \<Longrightarrow> event_pk ev = k"
  unfolding get_event_def by (drule objects_get_member) simp

lemma except_exception_event_pk: "event_pk (snd (except_exception rows event (dispatch rows event))) = event_pk event"
proof (cases "dispatch rows event")
  case (Inl e)
  then show ?thesis by (simp add: except_exception_def)
next
  case (Inr r)
  then have "dispatch rows event = Inr (fst r, snd r)" by simp
  from dispatch_result [OF this] Inr show ?thesis by (simp add: except_exception_def)
qed

lemma process_stripe_event_settle:
  assumes "get_event (events s) event_id = Inr event0"
  shows "\<exists>s'. process_stripe_event s event_id = Inr s'
           \<and> customers s' = fst (except_exception (customers s) (event0\<lparr>status := PENDING\<rparr>) (dispatch (customers s) (event0\<lparr>status := PENDING\<rparr>)))
           \<and> get_event (events s') event_id = Inr (snd (except_exception (customers s) (event0\<lparr>status := PENDING\<rparr>) (dispatch (customers s) (event0\<lparr>status := PENDING\<rparr>))))"
proof -
  let ?event = "event0\<lparr>status := PENDING\<rparr>"
  let ?r = "except_exception (customers s) ?event (dispatch (customers s) ?event)"
  let ?s' = "s\<lparr>customers := fst ?r, events := save_event (snd ?r) (save_event ?event (events s))\<rparr>"
  from assms have k: "event_pk event0 = event_id" by (rule get_event_pk)
  have p: "process_stripe_event s event_id = Inr ?s'"
    using assms by (simp add: process_stripe_event_def Let_def split_beta)
  have "get_event (save_event ?event (events s)) event_id = Inr ?event"
    using assms k by (intro get_event_save_event) simp_all
  moreover have "event_pk (snd ?r) = event_id"
    using k by (simp add: except_exception_event_pk)
  ultimately have "get_event (save_event (snd ?r) (save_event ?event (events s))) event_id = Inr (snd ?r)"
    by (rule get_event_save_event)
  with p show ?thesis by simp
qed

section \<open>The event processor always ends in a terminal status\<close>



section \<open>An event of a type that is not recognized\<close>

text \<open>
  C9. For every event whose type is none of the four recognized ones, the processor
  changes no customer and the event ends with status ERROR and a diagnostic that names
  the type.
\<close>

theorem unrecognized_event_type:
  assumes "get_event (events s) event_id = Inr event0"
    and "event_type event0 \<notin> {''invoice.paid'', ''customer.subscription.updated'',
           ''customer.subscription.deleted'', ''payment_method.automatically_updated''}"
  shows "\<exists>s' event'.
           process_stripe_event s event_id = Inr s'
         \<and> customers s' = customers s
         \<and> get_event (events s') event_id = Inr event'
         \<and> status event' = ERROR
         \<and> info event' = Some (''StripeEvent type '' @ [CHR 0x27] @ event_type event0
                                  @ [CHR 0x27] @ '' not recognized.'')"
proof -
  let ?event = "event0\<lparr>status := PENDING\<rparr>"
  have d: "dispatch (customers s) ?event = on_unrecognized (customers s) ?event"
    using assms(2) by (simp add: dispatch_def)
  let ?r = "except_exception (customers s) ?event (on_unrecognized (customers s) ?event)"
  from process_stripe_event_settle [OF assms(1)] obtain s' where
    p: "process_stripe_event s event_id = Inr s'" and
    c: "customers s' = fst ?r" and
    g: "get_event (events s') event_id = Inr (snd ?r)"
    unfolding d by blast
  have "fst ?r = customers s" and "status (snd ?r) = ERROR"
    and "info (snd ?r) = Some (''StripeEvent type '' @ [CHR 0x27] @ event_type event0
                                  @ [CHR 0x27] @ '' not recognized.'')"
    by (simp_all add: on_unrecognized_def except_exception_def)
  with p c g show ?thesis by auto
qed

theorem unrecognized_event_type_witness:
  "get_event (events \<lparr>customers = [], events = [\<lparr>event_pk = 1, event_type = ''bad.type'',
        payload = JObj [(''id'', JStr ''evt_test'')], status = NEW, info = None\<rparr>]\<rparr>) 1
     = Inr \<lparr>event_pk = 1, event_type = ''bad.type'',
        payload = JObj [(''id'', JStr ''evt_test'')], status = NEW, info = None\<rparr>
   \<and> ''bad.type'' \<notin> {''invoice.paid'', ''customer.subscription.updated'',
           ''customer.subscription.deleted'', ''payment_method.automatically_updated''}
   \<and> (\<exists>s' event'.
         process_stripe_event \<lparr>customers = [], events = [\<lparr>event_pk = 1, event_type = ''bad.type'',
            payload = JObj [(''id'', JStr ''evt_test'')], status = NEW, info = None\<rparr>]\<rparr> 1 = Inr s'
       \<and> customers s' = []
       \<and> get_event (events s') 1 = Inr event'
       \<and> status event' = ERROR
       \<and> info event' = Some ''StripeEvent type 'bad.type' not recognized.'')"
proof -
  let ?ev = "\<lparr>event_pk = 1, event_type = ''bad.type'',
        payload = JObj [(''id'', JStr ''evt_test'')], status = NEW, info = None\<rparr>"
  let ?s = "\<lparr>customers = [], events = [?ev]\<rparr>"
  have g: "get_event (events ?s) 1 = Inr ?ev"
    by (simp add: get_event_def objects_get_def)
  have t: "event_type ?ev \<notin> {''invoice.paid'', ''customer.subscription.updated'',
           ''customer.subscription.deleted'', ''payment_method.automatically_updated''}"
    by simp
  from unrecognized_event_type [OF g t] g show ?thesis by simp
qed

section \<open>Subscription status changes\<close>

lemma get_by_subscription_id_str:
  assumes "get_by_subscription_id rows (JStr ref) = Inr customer"
  shows "customer \<in> set rows \<and> subscription_id customer = Some ref"
  using objects_get_member [OF assms [unfolded get_by_subscription_id_def]] by simp

lemma save_customer_found:
  assumes "x \<in> set rows" and "pk c = pk x" and "payment_state_constraint c"
  shows "\<exists>rows'. save_customer c rows = Inr rows'
           \<and> find_customer rows' (pk x) = Some c
           \<and> (\<forall>k. k \<noteq> pk x \<longrightarrow> find_customer rows' k = find_customer rows k)"
proof -
  from assms(3) obtain rows' where s: "save_customer c rows = Inr rows'"
    by (simp add: save_customer_def)
  from find_customer_save_same [OF s assms(1)] assms(2)
  have "find_customer rows' (pk x) = Some c" by simp
  moreover have "\<forall>k. k \<noteq> pk x \<longrightarrow> find_customer rows' k = find_customer rows k"
    using find_customer_save_other [OF s] assms(2) by simp
  ultimately show ?thesis using s by blast
qed

text \<open>
  C2. For every event of type \<open>customer.subscription.updated\<close> or
  \<open>customer.subscription.deleted\<close> whose subscription reference matches a Customer:
  with the payload status \<open>past_due\<close> the Customer's payment state becomes
  REQUIRES_PAYMENT_METHOD; with \<open>canceled\<close> or \<open>incomplete_expired\<close> its subscription
  id is cleared and its payment state becomes OFF; with any other status no customer
  changes and a note is recorded; in every case the event ends PROCESSED, and no other
  customer changes.
\<close>

theorem subscription_status_changed:
  assumes "get_event (events s) event_id = Inr event0"
    and "event_type event0 = ''customer.subscription.updated''
         \<or> event_type event0 = ''customer.subscription.deleted''"
    and "payload_object event0 = Inr subscription"
    and "getitem subscription ''id'' = Inr (JStr ref)"
    and "get_by_subscription_id (customers s) (JStr ref) = Inr customer"
    and "getitem subscription ''status'' = Inr st"
  shows "\<exists>s' event'.
           process_stripe_event s event_id = Inr s'
         \<and> get_event (events s') event_id = Inr event'
         \<and> status event' = PROCESSED
         \<and> (\<forall>k. k \<noteq> pk customer \<longrightarrow> find_customer (customers s') k = find_customer (customers s) k)
         \<and> (st = JStr ''past_due'' \<longrightarrow>
              find_customer (customers s') (pk customer)
                = Some (customer\<lparr>payment_state := REQUIRES_PAYMENT_METHOD\<rparr>))
         \<and> (st = JStr ''canceled'' \<or> st = JStr ''incomplete_expired'' \<longrightarrow>
              find_customer (customers s') (pk customer)
                = Some (customer\<lparr>subscription_id := None, payment_state := OFF\<rparr>))
         \<and> (st \<noteq> JStr ''past_due'' \<and> st \<noteq> JStr ''canceled'' \<and> st \<noteq> JStr ''incomplete_expired'' \<longrightarrow>
              customers s' = customers s
              \<and> info event' = Some ''Payload 'status' is not actionable. No action was taken.'')"
proof -
  let ?rows = "customers s"
  let ?event = "event0\<lparr>status := PENDING\<rparr>"
  let ?d = "on_subscription_status ?rows ?event customer st"
  let ?r = "except_exception ?rows ?event ?d"
  have po: "payload_object ?event = Inr subscription"
    using assms(3) by (simp add: payload_object_def)
  have "dispatch ?rows ?event = on_subscription_changed ?rows ?event"
    using assms(2) by (auto simp: dispatch_def)
  also have "\<dots> = ?d"
    using po assms(4,5,6) by (simp add: on_subscription_changed_def)
  finally have d: "dispatch ?rows ?event = ?d" .
  from process_stripe_event_settle [OF assms(1)] obtain s' where
    p: "process_stripe_event s event_id = Inr s'" and
    c: "customers s' = fst ?r" and
    g: "get_event (events s') event_id = Inr (snd ?r)"
    unfolding d by blast
  from get_by_subscription_id_str [OF assms(5)]
  have mem: "customer \<in> set ?rows" and sub: "subscription_id customer = Some ref" by simp_all
  let ?c1 = "customer\<lparr>payment_state := REQUIRES_PAYMENT_METHOD\<rparr>"
  let ?c2 = "customer\<lparr>subscription_id := None, payment_state := OFF\<rparr>"
  have "payment_state_constraint ?c1" using sub by (simp add: payment_state_constraint_def)
  with save_customer_found [OF mem, of ?c1] obtain rows1 where
    s1: "save_customer ?c1 ?rows = Inr rows1" and
    f1: "find_customer rows1 (pk customer) = Some ?c1" and
    o1: "\<forall>k. k \<noteq> pk customer \<longrightarrow> find_customer rows1 k = find_customer ?rows k"
    by auto
  have "payment_state_constraint ?c2" by (simp add: payment_state_constraint_def)
  with save_customer_found [OF mem, of ?c2] obtain rows2 where
    s2: "save_customer ?c2 ?rows = Inr rows2" and
    f2: "find_customer rows2 (pk customer) = Some ?c2" and
    o2: "\<forall>k. k \<noteq> pk customer \<longrightarrow> find_customer rows2 k = find_customer ?rows k"
    by auto
  consider (past_due) "st = JStr ''past_due''"
    | (closed) "st = JStr ''canceled'' \<or> st = JStr ''incomplete_expired''"
    | (other) "st \<noteq> JStr ''past_due'' \<and> st \<noteq> JStr ''canceled'' \<and> st \<noteq> JStr ''incomplete_expired''"
    by blast
  then have "status (snd ?r) = PROCESSED
      \<and> (\<forall>k. k \<noteq> pk customer \<longrightarrow> find_customer (fst ?r) k = find_customer ?rows k)
      \<and> (st = JStr ''past_due'' \<longrightarrow> find_customer (fst ?r) (pk customer) = Some ?c1)
      \<and> (st = JStr ''canceled'' \<or> st = JStr ''incomplete_expired'' \<longrightarrow>
           find_customer (fst ?r) (pk customer) = Some ?c2)
      \<and> (st \<noteq> JStr ''past_due'' \<and> st \<noteq> JStr ''canceled'' \<and> st \<noteq> JStr ''incomplete_expired'' \<longrightarrow>
           fst ?r = ?rows
           \<and> info (snd ?r) = Some ''Payload 'status' is not actionable. No action was taken.'')"
  proof cases
    case past_due
    then have "?d = Inr (rows1, ?event\<lparr>status := PROCESSED\<rparr>)"
      using s1 by (simp add: on_subscription_status_def)
    then show ?thesis using past_due f1 o1 by (simp add: except_exception_def)
  next
    case closed
    then have "?d = Inr (rows2, ?event\<lparr>status := PROCESSED\<rparr>)"
      using s2 by (auto simp: on_subscription_status_def)
    then show ?thesis using closed f2 o2 by (auto simp: except_exception_def)
  next
    case other
    then have "?d = Inr (?rows, ?event\<lparr>info := Some ''Payload 'status' is not actionable. No action was taken.'',
                          status := PROCESSED\<rparr>)"
      by (simp add: on_subscription_status_def)
    then show ?thesis using other by (simp add: except_exception_def)
  qed
  with p c g show ?thesis by auto
qed

theorem subscription_status_changed_witness:
  "get_by_subscription_id (customers (webhook_store (webhook_event ''customer.subscription.updated''
       (JObj [(''id'', JStr ''sub''), (''status'', JStr ''past_due'')])))) (JStr ''sub'')
     = Inr paying_customer
   \<and> (\<exists>s' event'.
         process_stripe_event (webhook_store (webhook_event ''customer.subscription.updated''
           (JObj [(''id'', JStr ''sub''), (''status'', JStr ''past_due'')]))) 1 = Inr s'
       \<and> get_event (events s') 1 = Inr event' \<and> status event' = PROCESSED
       \<and> find_customer (customers s') 1
            = Some (paying_customer\<lparr>payment_state := REQUIRES_PAYMENT_METHOD\<rparr>)
       \<and> find_customer (customers s') 2 = Some new_customer)
   \<and> (\<exists>s' event'.
         process_stripe_event (webhook_store (webhook_event ''customer.subscription.deleted''
           (JObj [(''id'', JStr ''sub''), (''status'', JStr ''canceled'')]))) 1 = Inr s'
       \<and> get_event (events s') 1 = Inr event' \<and> status event' = PROCESSED
       \<and> find_customer (customers s') 1
            = Some (paying_customer\<lparr>subscription_id := None, payment_state := OFF\<rparr>)
       \<and> find_customer (customers s') 2 = Some new_customer)
   \<and> (\<exists>s' event'.
         process_stripe_event (webhook_store (webhook_event ''customer.subscription.updated''
           (JObj [(''id'', JStr ''sub''), (''status'', JStr ''active'')]))) 1 = Inr s'
       \<and> get_event (events s') 1 = Inr event' \<and> status event' = PROCESSED
       \<and> customers s' = [paying_customer, new_customer]
       \<and> info event' = Some ''Payload 'status' is not actionable. No action was taken.'')"
proof -
  let ?sub1 = "JObj [(''id'', JStr ''sub''), (''status'', JStr ''past_due'')]"
  let ?sub2 = "JObj [(''id'', JStr ''sub''), (''status'', JStr ''canceled'')]"
  let ?sub3 = "JObj [(''id'', JStr ''sub''), (''status'', JStr ''active'')]"
  let ?e1 = "webhook_event ''customer.subscription.updated'' ?sub1"
  let ?e2 = "webhook_event ''customer.subscription.deleted'' ?sub2"
  let ?e3 = "webhook_event ''customer.subscription.updated'' ?sub3"
  have pk1: "pk paying_customer = 1" by (simp add: paying_customer_def)
  have g: "\<And>t obj. get_event (events (webhook_store (webhook_event t obj))) 1 = Inr (webhook_event t obj)"
    by (simp add: get_event_def objects_get_def webhook_store_def webhook_event_def)
  have po: "\<And>t obj. payload_object (webhook_event t obj) = Inr obj"
    by (simp add: payload_object_def webhook_event_def)
  have c: "\<And>ev. get_by_subscription_id (customers (webhook_store ev)) (JStr ''sub'') = Inr paying_customer"
    by (simp add: get_by_subscription_id_def objects_get_def webhook_store_def
          paying_customer_def new_customer_def)
  have f2: "\<And>ev. find_customer (customers (webhook_store ev)) 2 = Some new_customer"
    by (simp add: find_customer_def webhook_store_def paying_customer_def new_customer_def)
  have rows: "\<And>ev. customers (webhook_store ev) = [paying_customer, new_customer]"
    by (simp add: webhook_store_def)
  have w1: "\<exists>s' event'.
         process_stripe_event (webhook_store ?e1) 1 = Inr s'
       \<and> get_event (events s') 1 = Inr event' \<and> status event' = PROCESSED
       \<and> find_customer (customers s') 1
            = Some (paying_customer\<lparr>payment_state := REQUIRES_PAYMENT_METHOD\<rparr>)
       \<and> find_customer (customers s') 2 = Some new_customer"
  proof -
    have h2: "event_type ?e1 = ''customer.subscription.updated''
              \<or> event_type ?e1 = ''customer.subscription.deleted''"
      by (simp add: webhook_event_def)
    have h4: "getitem ?sub1 ''id'' = Inr (JStr ''sub'')" by simp
    have h6: "getitem ?sub1 ''status'' = Inr (JStr ''past_due'')" by simp
    from subscription_status_changed [OF g h2 po h4 c h6] obtain s' event' where
      r: "process_stripe_event (webhook_store ?e1) 1 = Inr s'"
         "get_event (events s') 1 = Inr event'" "status event' = PROCESSED" and
      o: "\<forall>k. k \<noteq> pk paying_customer \<longrightarrow>
              find_customer (customers s') k = find_customer (customers (webhook_store ?e1)) k" and
      x: "find_customer (customers s') (pk paying_customer)
            = Some (paying_customer\<lparr>payment_state := REQUIRES_PAYMENT_METHOD\<rparr>)"
      by auto
    from o have "find_customer (customers s') 2 = Some new_customer" by (simp add: pk1 f2)
    with r x show ?thesis by (auto simp: pk1)
  qed
  have w2: "\<exists>s' event'.
         process_stripe_event (webhook_store ?e2) 1 = Inr s'
       \<and> get_event (events s') 1 = Inr event' \<and> status event' = PROCESSED
       \<and> find_customer (customers s') 1
            = Some (paying_customer\<lparr>subscription_id := None, payment_state := OFF\<rparr>)
       \<and> find_customer (customers s') 2 = Some new_customer"
  proof -
    have h2: "event_type ?e2 = ''customer.subscription.updated''
              \<or> event_type ?e2 = ''customer.subscription.deleted''"
      by (simp add: webhook_event_def)
    have h4: "getitem ?sub2 ''id'' = Inr (JStr ''sub'')" by simp
    have h6: "getitem ?sub2 ''status'' = Inr (JStr ''canceled'')" by simp
    from subscription_status_changed [OF g h2 po h4 c h6] obtain s' event' where
      r: "process_stripe_event (webhook_store ?e2) 1 = Inr s'"
         "get_event (events s') 1 = Inr event'" "status event' = PROCESSED" and
      o: "\<forall>k. k \<noteq> pk paying_customer \<longrightarrow>
              find_customer (customers s') k = find_customer (customers (webhook_store ?e2)) k" and
      x: "find_customer (customers s') (pk paying_customer)
            = Some (paying_customer\<lparr>subscription_id := None, payment_state := OFF\<rparr>)"
      by auto
    from o have "find_customer (customers s') 2 = Some new_customer" by (simp add: pk1 f2)
    with r x show ?thesis by (auto simp: pk1)
  qed
  have w3: "\<exists>s' event'.
         process_stripe_event (webhook_store ?e3) 1 = Inr s'
       \<and> get_event (events s') 1 = Inr event' \<and> status event' = PROCESSED
       \<and> customers s' = [paying_customer, new_customer]
       \<and> info event' = Some ''Payload 'status' is not actionable. No action was taken.''"
  proof -
    have h2: "event_type ?e3 = ''customer.subscription.updated''
              \<or> event_type ?e3 = ''customer.subscription.deleted''"
      by (simp add: webhook_event_def)
    have h4: "getitem ?sub3 ''id'' = Inr (JStr ''sub'')" by simp
    have h6: "getitem ?sub3 ''status'' = Inr (JStr ''active'')" by simp
    from subscription_status_changed [OF g h2 po h4 c h6] obtain s' event' where
      r: "process_stripe_event (webhook_store ?e3) 1 = Inr s'"
         "get_event (events s') 1 = Inr event'" "status event' = PROCESSED" and
      o: "\<forall>k. k \<noteq> pk paying_customer \<longrightarrow>
              find_customer (customers s') k = find_customer (customers (webhook_store ?e3)) k" and
      x: "customers s' = customers (webhook_store ?e3)
            \<and> info event' = Some ''Payload 'status' is not actionable. No action was taken.''"
      by auto
    from r x show ?thesis by (auto simp: rows)
  qed
  from c [of ?e1] w1 w2 w3 show ?thesis by blast
qed

text \<open>
  The reference of the theorem is a string. A payload whose \<open>id\<close> is \<open>null\<close> names
  no subscription; the lookup then reads the customers that have none, and with exactly
  one such customer and the status \<open>past_due\<close> the save is rejected and the event ends
  in ERROR.
\<close>

lemma null_subscription_reference:
  "\<exists>s' event'.
     process_stripe_event (webhook_store (webhook_event ''customer.subscription.updated''
       (JObj [(''id'', JNull), (''status'', JStr ''past_due'')]))) 1 = Inr s'
   \<and> get_event (events s') 1 = Inr event'
   \<and> status event' = ERROR
   \<and> info event' = Some (format_exc IntegrityError)
   \<and> customers s' = [paying_customer, new_customer]"
proof -
  let ?e = "webhook_event ''customer.subscription.updated''
              (JObj [(''id'', JNull), (''status'', JStr ''past_due'')])"
  have g: "get_event (events (webhook_store ?e)) 1 = Inr ?e"
    by (simp add: get_event_def objects_get_def webhook_store_def webhook_event_def)
  have d: "dispatch [paying_customer, new_customer] (?e\<lparr>status := PENDING\<rparr>) = Inl IntegrityError"
    by (simp add: dispatch_def on_subscription_changed_def on_subscription_status_def
          payload_object_def webhook_event_def get_by_subscription_id_def objects_get_def
          save_customer_def payment_state_constraint_def paying_customer_def new_customer_def)
  from process_stripe_event_settle [OF g] show ?thesis
    by (auto simp: webhook_store_def d except_exception_def)
qed

section \<open>Renewals\<close>



section \<open>Processing a renewal twice\<close>

lemma map_sum_try_bind:
  "map_sum id f (try_bind m g) = try_bind m (\<lambda>x. map_sum id f (g x))"
  by (cases m) simp_all

lemma try_bind_assoc:
  "try_bind (try_bind m f) g = try_bind m (\<lambda>x. try_bind (f x) g)"
  by (cases m) simp_all

lemma dispatch_invoice_paid:
  "event_type event = ''invoice.paid'' \<Longrightarrow> dispatch rows event = on_invoice_paid rows event"
  by (simp add: dispatch_def)

lemma fst_except_exception:
  "fst (except_exception rows event r) = (case map_sum id fst r of Inl e \<Rightarrow> rows | Inr rows' \<Rightarrow> rows')"
  by (cases r) (simp_all add: except_exception_def)

lemma on_invoice_paid_rows:
  "map_sum id fst (on_invoice_paid rows event) =
     try_bind (getitem (payload event) ''data'') (\<lambda>d.
     try_bind (getitem d ''object'') (\<lambda>invoice.
     try_bind (getitem invoice ''billing_reason'') (\<lambda>reason.
       if reason = JStr ''subscription_cycle'' then
         try_bind (getitem invoice ''subscription'') (\<lambda>ref.
         try_bind (get_by_subscription_id rows ref) (\<lambda>customer.
         try_bind (invoice_period_end invoice) (\<lambda>period_end.
           save_customer (customer\<lparr>current_period_end := Some period_end\<rparr>) rows)))
       else Inr rows)))"
proof -
  have last: "\<And>m. try_bind m (\<lambda>rows'. Inr rows') = (m :: exn + Customer list)"
    by (case_tac m) simp_all
  show ?thesis
    unfolding on_invoice_paid_def payload_object_def map_sum_try_bind try_bind_assoc
      if_distrib [of "map_sum id fst"]
    by (simp add: last cong: if_cong)
qed

lemma invoice_paid_rows_cong:
  assumes "payload event' = payload event"
  shows "fst (except_exception rows event' (on_invoice_paid rows event'))
       = fst (except_exception rows event (on_invoice_paid rows event))"
  unfolding fst_except_exception on_invoice_paid_rows assms ..

lemma save_customer_again:
  assumes "save_customer c rows = Inr rows'"
  shows "save_customer c rows' = Inr rows'"
proof -
  from assms have k: "payment_state_constraint c"
    and r: "rows' = map (\<lambda>r. if pk r = pk c then c else r) rows"
    by (simp_all add: save_customer_Inr_iff)
  have "map (\<lambda>r. if pk r = pk c then c else r) rows' = rows'"
    unfolding r by (induction rows) auto
  with k show ?thesis by (simp add: save_customer_def)
qed

lemma renewal_again:
  assumes g: "get_by_subscription_id rows ref = Inr customer"
    and s: "save_customer (customer\<lparr>current_period_end := Some t\<rparr>) rows = Inr rows'"
    and g': "get_by_subscription_id rows' ref = Inr customer'"
  shows "save_customer (customer'\<lparr>current_period_end := Some t\<rparr>) rows' = Inr rows'"
proof -
  let ?P = "\<lambda>c. field_matches (subscription_id c) ref"
  let ?c = "customer\<lparr>current_period_end := Some t\<rparr>"
  from g have f: "filter ?P rows = [customer]"
    by (simp add: get_by_subscription_id_def objects_get_Inr_iff)
  from s have r: "rows' = map (\<lambda>r. if pk r = pk ?c then ?c else r) rows"
    by (simp add: save_customer_Inr_iff)
  from objects_get_member [OF g' [unfolded get_by_subscription_id_def]]
  have m: "customer' \<in> set rows'" and p: "?P customer'" by simp_all
  from m r obtain x where x: "x \<in> set rows" "customer' = (if pk x = pk ?c then ?c else x)"
    by auto
  have "customer' = ?c"
  proof (cases "pk x = pk ?c")
    case True
    with x show ?thesis by simp
  next
    case False
    with x have "customer' = x" by simp
    with x(1) p have "customer' \<in> set (filter ?P rows)" by simp
    with f have "customer' = customer" by simp
    with \<open>customer' = x\<close> False show ?thesis by simp
  qed
  then have "customer'\<lparr>current_period_end := Some t\<rparr> = ?c" by simp
  with save_customer_again [OF s] show ?thesis by simp
qed

lemma invoice_paid_rows_idem:
  "fst (except_exception (fst (except_exception rows event (on_invoice_paid rows event))) event
          (on_invoice_paid (fst (except_exception rows event (on_invoice_paid rows event))) event))
   = fst (except_exception rows event (on_invoice_paid rows event))"
  (is "?F (?F rows) = ?F rows")
proof (cases "map_sum id fst (on_invoice_paid rows event)")
  case (Inl e)
  then have "?F rows = rows" by (simp add: fst_except_exception)
  then show ?thesis by simp
next
  case (Inr rows')
  then have F: "?F rows = rows'" by (simp add: fst_except_exception)
  from Inr obtain d invoice reason where
    d: "getitem (payload event) ''data'' = Inr d" and
    i: "getitem d ''object'' = Inr invoice" and
    b: "getitem invoice ''billing_reason'' = Inr reason" and
    rest: "(if reason = JStr ''subscription_cycle'' then
         try_bind (getitem invoice ''subscription'') (\<lambda>ref.
         try_bind (get_by_subscription_id rows ref) (\<lambda>customer.
         try_bind (invoice_period_end invoice) (\<lambda>period_end.
           save_customer (customer\<lparr>current_period_end := Some period_end\<rparr>) rows)))
       else Inr rows) = Inr rows'"
    unfolding on_invoice_paid_rows try_bind_Inr_iff by blast
  show ?thesis
  proof (cases "reason = JStr ''subscription_cycle''")
    case False
    with rest have "rows' = rows" by simp
    with F show ?thesis by simp
  next
    case True
    with rest obtain ref customer t where
      r: "getitem invoice ''subscription'' = Inr ref" and
      g: "get_by_subscription_id rows ref = Inr customer" and
      t: "invoice_period_end invoice = Inr t" and
      s: "save_customer (customer\<lparr>current_period_end := Some t\<rparr>) rows = Inr rows'"
      by (auto simp: try_bind_Inr_iff)
    have again: "map_sum id fst (on_invoice_paid rows' event) =
        try_bind (get_by_subscription_id rows' ref) (\<lambda>customer.
           save_customer (customer\<lparr>current_period_end := Some t\<rparr>) rows')"
      unfolding on_invoice_paid_rows using d i b True r t by simp
    have "?F rows' = rows'"
    proof (cases "get_by_subscription_id rows' ref")
      case (Inl e)
      then show ?thesis by (simp add: fst_except_exception again)
    next
      case (Inr customer')
      from renewal_again [OF g s Inr] Inr show ?thesis
        by (simp add: fst_except_exception again)
    qed
    with F show ?thesis by simp
  qed
qed

lemma except_exception_event:
  "event_type (snd (except_exception rows event (dispatch rows event))) = event_type event
   \<and> payload (snd (except_exception rows event (dispatch rows event))) = payload event"
proof (cases "dispatch rows event")
  case (Inl e)
  then show ?thesis by (simp add: except_exception_def)
next
  case (Inr r)
  then have "dispatch rows event = Inr (fst r, snd r)" by simp
  from dispatch_result [OF this] Inr show ?thesis by (simp add: except_exception_def)
qed

text \<open>
  C8. Processing the same \<open>invoice.paid\<close> event twice leaves every customer, after the
  second run, as it was after the first: the subscription reference finds the same
  customer again and the same period end is written again.
\<close>

theorem renewal_idempotent:
  assumes "get_event (events s) event_id = Inr event0"
    and "event_type event0 = ''invoice.paid''"
  shows "\<exists>s1 s2. process_stripe_event s event_id = Inr s1
              \<and> process_stripe_event s1 event_id = Inr s2
              \<and> customers s2 = customers s1"
proof -
  let ?event = "event0\<lparr>status := PENDING\<rparr>"
  let ?r = "except_exception (customers s) ?event (dispatch (customers s) ?event)"
  from process_stripe_event_settle [OF assms(1)] obtain s1 where
    p1: "process_stripe_event s event_id = Inr s1" and
    c1: "customers s1 = fst ?r" and
    g1: "get_event (events s1) event_id = Inr (snd ?r)"
    by blast
  let ?event1 = "(snd ?r)\<lparr>status := PENDING\<rparr>"
  let ?r1 = "except_exception (customers s1) ?event1 (dispatch (customers s1) ?event1)"
  from process_stripe_event_settle [OF g1] obtain s2 where
    p2: "process_stripe_event s1 event_id = Inr s2" and
    c2: "customers s2 = fst ?r1"
    by blast
  from except_exception_event [of "customers s" ?event] assms(2)
  have ty: "event_type ?event1 = ''invoice.paid''" and pl: "payload ?event1 = payload ?event"
    by simp_all
  have d: "dispatch (customers s) ?event = on_invoice_paid (customers s) ?event"
    using assms(2) by (intro dispatch_invoice_paid) simp
  have d1: "dispatch (customers s1) ?event1 = on_invoice_paid (customers s1) ?event1"
    using ty by (rule dispatch_invoice_paid)
  have "customers s2 = fst (except_exception (customers s1) ?event1 (on_invoice_paid (customers s1) ?event1))"
    using c2 d1 by simp
  also have "\<dots> = fst (except_exception (customers s1) ?event (on_invoice_paid (customers s1) ?event))"
    using pl by (rule invoice_paid_rows_cong)
  also have "\<dots> = customers s1"
    unfolding c1 d by (rule invoice_paid_rows_idem)
  finally show ?thesis using p1 p2 by blast
qed

theorem renewal_idempotent_witness:
  "get_event (events (webhook_store (webhook_event ''invoice.paid''
       (JObj [(''billing_reason'', JStr ''subscription_cycle''), (''subscription'', JStr ''sub''),
              (''lines'', JObj [(''data'', JArr [JObj [(''period'', JObj [(''end'', JInt 1702592000)])]])])])))) 1
     = Inr (webhook_event ''invoice.paid''
       (JObj [(''billing_reason'', JStr ''subscription_cycle''), (''subscription'', JStr ''sub''),
              (''lines'', JObj [(''data'', JArr [JObj [(''period'', JObj [(''end'', JInt 1702592000)])]])])]))
   \<and> (\<exists>s1 s2.
         process_stripe_event (webhook_store (webhook_event ''invoice.paid''
           (JObj [(''billing_reason'', JStr ''subscription_cycle''), (''subscription'', JStr ''sub''),
              (''lines'', JObj [(''data'', JArr [JObj [(''period'', JObj [(''end'', JInt 1702592000)])]])])]))) 1
           = Inr s1
       \<and> process_stripe_event s1 1 = Inr s2
       \<and> customers s1 = [paying_customer\<lparr>current_period_end := Some 1702592000\<rparr>, new_customer]
       \<and> customers s2 = customers s1)"
proof -
  let ?inv = "JObj [(''billing_reason'', JStr ''subscription_cycle''), (''subscription'', JStr ''sub''),
              (''lines'', JObj [(''data'', JArr [JObj [(''period'', JObj [(''end'', JInt 1702592000)])]])])]"
  let ?e = "webhook_event ''invoice.paid'' ?inv"
  have g: "get_event (events (webhook_store ?e)) 1 = Inr ?e"
    by (simp add: get_event_def objects_get_def webhook_store_def webhook_event_def)
  have ty: "event_type ?e = ''invoice.paid''"
    by (simp add: webhook_event_def)
  have d: "dispatch [paying_customer, new_customer] (?e\<lparr>status := PENDING\<rparr>)
         = Inr ([paying_customer\<lparr>current_period_end := Some 1702592000\<rparr>, new_customer],
                ?e\<lparr>status := PROCESSED\<rparr>)"
    by (simp add: dispatch_def on_invoice_paid_def payload_object_def webhook_event_def
          invoice_period_end_def get_by_subscription_id_def objects_get_def save_customer_def
          payment_state_constraint_def paying_customer_def new_customer_def)
  from process_stripe_event_settle [OF g] obtain s' where
    p: "process_stripe_event (webhook_store ?e) 1 = Inr s'" and
    c: "customers s' = [paying_customer\<lparr>current_period_end := Some 1702592000\<rparr>, new_customer]"
    by (auto simp: webhook_store_def d except_exception_def)
  from renewal_idempotent [OF g ty] p c g show ?thesis by auto
qed

section \<open>The state of a customer is one label\<close>







text \<open>
  Two scenarios of section 8 of the spec: the paying customer before its period end, and
  the customer of a new account.
\<close>

lemma state_paid_paying:
  "deriveState paying_customer 1699999000 = ''paid.paying''"
  by (simp add: deriveState_def state_table_def rule_matches_def period_of_def
        paying_customer_def paid_plan_def)

lemma state_free_default_new:
  "deriveState new_customer now = ''free_default.new''"
  by (simp add: deriveState_def state_table_def rule_matches_def period_of_def
        new_customer_def free_default_plan_def)

section \<open>The limit of a customer\<close>

lemma find_distinct_key:
  assumes "distinct (map f xs)" and "x \<in> set xs"
  shows "find (\<lambda>y. f y = f x) xs = Some x"
  using assms by (induction xs) (auto simp: image_iff)

lemma find_none_iff_key:
  "(find P xs = None) = (\<forall>x \<in> set xs. \<not> P x)"
  by (induction xs) auto

lemma plan_expired_iff:
  "plan_expired c now =
     ((plan_type (plan c) = PAID_PUBLIC
         \<and> (case current_period_end c of None \<Rightarrow> True | Some t \<Rightarrow> t \<le> now))
      \<or> (plan_type (plan c) = FREE_PRIVATE
         \<and> (case current_period_end c of None \<Rightarrow> False | Some t \<Rightarrow> t \<le> now)))"
  by (cases "plan_type (plan c)"; cases "current_period_end c")
     (simp_all add: plan_expired_def period_of_def)

text \<open>
  C5. \<open>getLimit\<close> raises \<open>NotFoundError\<close> when no Limit has the name; otherwise it
  returns the value of the PlanLimit of the effective plan for that name when there is
  one, and the default of the Limit when there is none. The effective plan is the
  FREE_DEFAULT plan when the customer's plan is PAID_PUBLIC with a period end that is
  absent or not after \<open>now\<close>, or FREE_PRIVATE with a period end that is present and not
  after \<open>now\<close>; it is the customer's plan otherwise. Limit names, and the pairs of plan
  and limit of the PlanLimits, are keys of their tables.
\<close>

theorem getLimit_resolution:
  assumes "distinct (map limit_name limits)"
    and "distinct (map (\<lambda>pl. (planlimit_plan pl, planlimit_limit pl)) plan_limits)"
    and "effective =
           (if (plan_type (plan c) = PAID_PUBLIC
                  \<and> (case current_period_end c of None \<Rightarrow> True | Some t \<Rightarrow> t \<le> now))
               \<or> (plan_type (plan c) = FREE_PRIVATE
                  \<and> (case current_period_end c of None \<Rightarrow> False | Some t \<Rightarrow> t \<le> now))
            then free_default else plan c)"
  shows "((\<forall>l \<in> set limits. limit_name l \<noteq> name) \<longrightarrow>
            getLimit limits plan_limits free_default c name now = Inl DoesNotExist)
       \<and> (\<forall>l pl. l \<in> set limits \<and> limit_name l = name
                 \<and> pl \<in> set plan_limits \<and> planlimit_plan pl = plan_pk effective
                 \<and> planlimit_limit pl = name \<longrightarrow>
            getLimit limits plan_limits free_default c name now = Inr (planlimit_value pl))
       \<and> (\<forall>l. l \<in> set limits \<and> limit_name l = name
               \<and> (\<forall>pl \<in> set plan_limits.
                     \<not> (planlimit_plan pl = plan_pk effective \<and> planlimit_limit pl = name)) \<longrightarrow>
            getLimit limits plan_limits free_default c name now = Inr (limit_default l))"
proof -
  let ?key = "\<lambda>pl. (planlimit_plan pl, planlimit_limit pl)"
  let ?Q = "\<lambda>pl. planlimit_plan pl = plan_pk (effective_plan free_default c now)
                 \<and> planlimit_limit pl = name"
  have e: "effective_plan free_default c now = effective"
    unfolding assms(3) effective_plan_def plan_expired_iff ..
  have none: "getLimit limits plan_limits free_default c name now = Inl DoesNotExist"
    if "\<forall>l \<in> set limits. limit_name l \<noteq> name"
  proof -
    from that have "find (\<lambda>l. limit_name l = name) limits = None"
      by (simp add: find_none_iff_key)
    then show ?thesis by (simp add: getLimit_def)
  qed
  have override: "getLimit limits plan_limits free_default c name now = Inr (planlimit_value pl)"
    if h: "l \<in> set limits" "limit_name l = name" "pl \<in> set plan_limits"
          "planlimit_plan pl = plan_pk effective" "planlimit_limit pl = name" for l pl
  proof -
    from find_distinct_key [OF assms(1) h(1)] h(2)
    have fl: "find (\<lambda>l. limit_name l = name) limits = Some l" by simp
    from find_distinct_key [OF assms(2) h(3)] h(4,5) e
    have "find (\<lambda>y. ?key y = (plan_pk (effective_plan free_default c now), name)) plan_limits = Some pl"
      by simp
    then have "find ?Q plan_limits = Some pl" by simp
    with fl show ?thesis by (simp add: getLimit_def)
  qed
  have default: "getLimit limits plan_limits free_default c name now = Inr (limit_default l)"
    if h: "l \<in> set limits" "limit_name l = name"
          "\<forall>pl \<in> set plan_limits. \<not> (planlimit_plan pl = plan_pk effective \<and> planlimit_limit pl = name)" for l
  proof -
    from find_distinct_key [OF assms(1) h(1)] h(2)
    have fl: "find (\<lambda>l. limit_name l = name) limits = Some l" by simp
    from h(3) e have "find ?Q plan_limits = None"
      by (simp add: find_none_iff_key)
    with fl show ?thesis by (simp add: getLimit_def)
  qed
  from none override default show ?thesis by blast
qed

theorem getLimit_resolution_witness:
  "distinct (map limit_name limit_fixtures)
   \<and> distinct (map (\<lambda>pl. (planlimit_plan pl, planlimit_limit pl)) plan_limit_fixtures)
   \<and> getLimit limit_fixtures plan_limit_fixtures free_default_plan paying_customer ''Bad Limit'' 1700000060
       = Inl DoesNotExist
   \<and> getLimit limit_fixtures plan_limit_fixtures free_default_plan paying_customer ''Limit 1'' 1700000060
       = Inr 50
   \<and> getLimit limit_fixtures plan_limit_fixtures free_default_plan paying_customer ''Limit 2'' 1700000060
       = Inr 98
   \<and> getLimit limit_fixtures plan_limit_fixtures free_default_plan paying_customer ''Limit 1'' 1699999000
       = Inr 1"
proof -
  have d1: "distinct (map limit_name limit_fixtures)"
    by (simp add: limit_fixtures_def)
  have d2: "distinct (map (\<lambda>pl. (planlimit_plan pl, planlimit_limit pl)) plan_limit_fixtures)"
    by (simp add: plan_limit_fixtures_def)
  have late: "free_default_plan =
           (if (plan_type (plan paying_customer) = PAID_PUBLIC
                  \<and> (case current_period_end paying_customer of None \<Rightarrow> True | Some t \<Rightarrow> t \<le> 1700000060))
               \<or> (plan_type (plan paying_customer) = FREE_PRIVATE
                  \<and> (case current_period_end paying_customer of None \<Rightarrow> False | Some t \<Rightarrow> t \<le> 1700000060))
            then free_default_plan else plan paying_customer)"
    by (simp add: paying_customer_def paid_plan_def)
  have early: "paid_plan =
           (if (plan_type (plan paying_customer) = PAID_PUBLIC
                  \<and> (case current_period_end paying_customer of None \<Rightarrow> True | Some t \<Rightarrow> t \<le> 1699999000))
               \<or> (plan_type (plan paying_customer) = FREE_PRIVATE
                  \<and> (case current_period_end paying_customer of None \<Rightarrow> False | Some t \<Rightarrow> t \<le> 1699999000))
            then free_default_plan else plan paying_customer)"
    by (simp add: paying_customer_def paid_plan_def)
  have a: "getLimit limit_fixtures plan_limit_fixtures free_default_plan paying_customer ''Bad Limit'' 1700000060
       = Inl DoesNotExist"
    using getLimit_resolution [OF d1 d2 late, of "''Bad Limit''", THEN conjunct1]
    by (simp add: limit_fixtures_def)
  have b: "getLimit limit_fixtures plan_limit_fixtures free_default_plan paying_customer ''Limit 1'' 1700000060
       = Inr 50"
    using getLimit_resolution [OF d1 d2 late, of "''Limit 1''", THEN conjunct2, THEN conjunct1,
        rule_format, of "\<lparr>limit_name = ''Limit 1'', limit_default = 99\<rparr>"
          "\<lparr>planlimit_plan = 1, planlimit_limit = ''Limit 1'', planlimit_value = 50\<rparr>"]
    by (simp add: limit_fixtures_def plan_limit_fixtures_def free_default_plan_def)
  have c: "getLimit limit_fixtures plan_limit_fixtures free_default_plan paying_customer ''Limit 2'' 1700000060
       = Inr 98"
    using getLimit_resolution [OF d1 d2 late, of "''Limit 2''", THEN conjunct2, THEN conjunct2,
        rule_format, of "\<lparr>limit_name = ''Limit 2'', limit_default = 98\<rparr>"]
    by (simp add: limit_fixtures_def plan_limit_fixtures_def free_default_plan_def)
  have d: "getLimit limit_fixtures plan_limit_fixtures free_default_plan paying_customer ''Limit 1'' 1699999000
       = Inr 1"
    using getLimit_resolution [OF d1 d2 early, of "''Limit 1''", THEN conjunct2, THEN conjunct1,
        rule_format, of "\<lparr>limit_name = ''Limit 1'', limit_default = 99\<rparr>"
          "\<lparr>planlimit_plan = 2, planlimit_limit = ''Limit 1'', planlimit_value = 1\<rparr>"]
    by (simp add: limit_fixtures_def plan_limit_fixtures_def paid_plan_def)
  from d1 d2 a b c d show ?thesis by blast
qed

text \<open>
  The two tests on a missing period end: a paid plan with none is expired
  (\<open>test_get_limit_paid_plan_with_no_date\<close>), a FREE_PRIVATE plan with none is not
  (\<open>test_get_limit_free_private_plan_with_no_date\<close>).
\<close>

lemma get_limit_paid_plan_with_no_date:
  "getLimit limit_fixtures plan_limit_fixtures free_default_plan
     (paying_customer\<lparr>current_period_end := None\<rparr>) ''Limit 1'' now = Inr 50"
  by (simp add: getLimit_def effective_plan_def plan_expired_def period_of_def
        limit_fixtures_def plan_limit_fixtures_def free_default_plan_def
        paying_customer_def paid_plan_def)

lemma get_limit_free_private_plan_with_no_date:
  "getLimit limit_fixtures
     (\<lparr>planlimit_plan = 3, planlimit_limit = ''Limit 1'', planlimit_value = 0\<rparr> # plan_limit_fixtures)
     free_default_plan
     (new_customer\<lparr>plan := \<lparr>plan_pk = 3, plan_name = ''Staff'', plan_type = FREE_PRIVATE,
                               display_price = 0, price_id = None\<rparr>\<rparr>) ''Limit 1'' now = Inr 0"
  by (simp add: getLimit_def effective_plan_def plan_expired_def period_of_def
        limit_fixtures_def plan_limit_fixtures_def free_default_plan_def new_customer_def)

section \<open>Creating a subscription\<close>

lemma find_customer_Some:
  assumes "find_customer rows k = Some c"
  shows "c \<in> set rows \<and> pk c = k"
  using assms unfolding find_customer_def by (induction rows) (auto split: if_splits)




section \<open>Curing a failed card\<close>

text \<open>
  C10. In \<open>CureFailedCardAPIView.post\<close>, for a customer with a subscription id and
  payment state REQUIRES_PAYMENT_METHOD: when replacing the card and retrying the
  invoice raise nothing and the invoice's status is not \<open>paid\<close>, the handler still
  answers 201, and the saved customer is unchanged: its payment state stays
  REQUIRES_PAYMENT_METHOD and its period end is what it was.
\<close>

theorem cure_not_paid:
  assumes "find_customer rows k = Some customer"
    and "truthy (subscription_id customer)"
    and "payment_state customer = REQUIRES_PAYMENT_METHOD"
    and "replace_card = Inr u"
    and "retry_invoice = Inr invoice"
    and "getitem invoice ''status'' = Inr st"
    and "st \<noteq> JStr ''paid''"
  shows "\<exists>rows' customer'.
           cure_failed_card_post rows k True replace_card retry_invoice = (Response 201, rows')
         \<and> find_customer rows' k = Some customer'
         \<and> customer' = customer
         \<and> payment_state customer' = REQUIRES_PAYMENT_METHOD
         \<and> current_period_end customer' = current_period_end customer"
proof -
  from find_customer_Some [OF assms(1)] have m: "customer \<in> set rows" and k: "pk customer = k"
    by simp_all
  from assms(2) have "subscription_id customer \<noteq> None"
    by (cases "subscription_id customer") (simp_all add: truthy_def)
  then have "payment_state_constraint customer" by (simp add: payment_state_constraint_def)
  then obtain rows1 where s: "save_customer customer rows = Inr rows1"
    by (simp add: save_customer_def)
  from find_customer_save_same [OF s m] k have f: "find_customer rows1 k = Some customer" by simp
  have "cure_with_invoice rows1 customer invoice = (Response 201, rows1)"
    using assms(6,7) by (simp add: cure_with_invoice_def)
  then have "cure_failed_card_post rows k True replace_card retry_invoice = (Response 201, rows1)"
    using assms(1-5) s by (simp add: cure_failed_card_post_def)
  with f assms(3) show ?thesis by simp
qed

theorem cure_not_paid_witness:
  "find_customer [paying_customer\<lparr>payment_state := REQUIRES_PAYMENT_METHOD\<rparr>, new_customer] 1
     = Some (paying_customer\<lparr>payment_state := REQUIRES_PAYMENT_METHOD\<rparr>)
   \<and> truthy (subscription_id (paying_customer\<lparr>payment_state := REQUIRES_PAYMENT_METHOD\<rparr>))
   \<and> getitem (JObj [(''id'', JStr ''inv_id''), (''status'', JStr ''open'')]) ''status'' = Inr (JStr ''open'')
   \<and> (\<exists>rows'.
         cure_failed_card_post [paying_customer\<lparr>payment_state := REQUIRES_PAYMENT_METHOD\<rparr>, new_customer]
           1 True (Inr ()) (Inr (JObj [(''id'', JStr ''inv_id''), (''status'', JStr ''open'')]))
           = (Response 201, rows')
       \<and> find_customer rows' 1 = Some (paying_customer\<lparr>payment_state := REQUIRES_PAYMENT_METHOD\<rparr>))"
proof -
  let ?c = "paying_customer\<lparr>payment_state := REQUIRES_PAYMENT_METHOD\<rparr>"
  let ?invoice = "JObj [(''id'', JStr ''inv_id''), (''status'', JStr ''open'')]"
  have f: "find_customer [?c, new_customer] 1 = Some ?c"
    by (simp add: find_customer_def paying_customer_def)
  have t: "truthy (subscription_id ?c)"
    by (simp add: truthy_def paying_customer_def)
  have p: "payment_state ?c = REQUIRES_PAYMENT_METHOD"
    by simp
  have g: "getitem ?invoice ''status'' = Inr (JStr ''open'')"
    by simp
  have n: "JStr ''open'' \<noteq> JStr ''paid''"
    by simp
  from cure_not_paid [OF f t p refl refl g n, of "()"] f t g show ?thesis by auto
qed

section \<open>The constraint on the payment state\<close>

lemma save_customer_valid:
  assumes "save_customer c rows = Inr rows'" and "list_all payment_state_constraint rows"
  shows "list_all payment_state_constraint rows'"
proof -
  from assms(1) have k: "payment_state_constraint c"
    and r: "rows' = map (\<lambda>r. if pk r = pk c then c else r) rows"
    by (simp_all add: save_customer_Inr_iff)
  from assms(2) k show ?thesis unfolding r by (induction rows) auto
qed

lemma insert_customer_valid:
  assumes "insert_customer c rows = Inr rows'" and "list_all payment_state_constraint rows"
  shows "list_all payment_state_constraint rows'"
  using assms by (auto simp: insert_customer_def split: if_splits)

lemma on_invoice_paid_valid:
  assumes "on_invoice_paid rows event = Inr (rows', event')"
    and "list_all payment_state_constraint rows"
  shows "list_all payment_state_constraint rows'"
proof -
  from assms(1) have "map_sum id fst (on_invoice_paid rows event) = Inr rows'" by simp
  then consider (same) "rows' = rows"
    | (saved) c where "save_customer c rows = Inr rows'"
    unfolding on_invoice_paid_rows by (auto simp: try_bind_Inr_iff split: if_splits)
  then show ?thesis
  proof cases
    case same
    with assms(2) show ?thesis by simp
  next
    case saved
    then show ?thesis using assms(2) by (rule save_customer_valid)
  qed
qed

lemma on_subscription_status_valid:
  assumes "on_subscription_status rows event customer st = Inr (rows', event')"
    and "list_all payment_state_constraint rows"
  shows "list_all payment_state_constraint rows'"
proof -
  from assms(1) consider (same) "rows' = rows"
    | (saved) c where "save_customer c rows = Inr rows'"
    unfolding on_subscription_status_def by (auto simp: try_bind_Inr_iff split: if_splits)
  then show ?thesis
  proof cases
    case same
    with assms(2) show ?thesis by simp
  next
    case saved
    then show ?thesis using assms(2) by (rule save_customer_valid)
  qed
qed

lemma on_subscription_changed_valid:
  assumes "on_subscription_changed rows event = Inr (rows', event')"
    and "list_all payment_state_constraint rows"
  shows "list_all payment_state_constraint rows'"
proof -
  from assms(1) obtain customer st where
    "on_subscription_status rows event customer st = Inr (rows', event')"
    unfolding on_subscription_changed_def try_bind_Inr_iff by blast
  then show ?thesis using assms(2) by (rule on_subscription_status_valid)
qed

lemma on_card_updated_valid:
  assumes "on_card_updated rows event = Inr (rows', event')"
    and "list_all payment_state_constraint rows"
  shows "list_all payment_state_constraint rows'"
proof -
  from assms(1) obtain c where "save_customer c rows = Inr rows'"
    unfolding on_card_updated_def try_bind_Inr_iff by auto
  then show ?thesis using assms(2) by (rule save_customer_valid)
qed

lemma dispatch_valid:
  assumes "dispatch rows event = Inr (rows', event')"
    and "list_all payment_state_constraint rows"
  shows "list_all payment_state_constraint rows'"
proof -
  consider (a) "on_invoice_paid rows event = Inr (rows', event')"
    | (b) "on_subscription_changed rows event = Inr (rows', event')"
    | (c) "on_card_updated rows event = Inr (rows', event')"
    | (d) "on_unrecognized rows event = Inr (rows', event')"
    using assms(1) unfolding dispatch_def by (simp split: if_splits)
  then show ?thesis
  proof cases
    case a then show ?thesis using assms(2) by (rule on_invoice_paid_valid)
  next
    case b then show ?thesis using assms(2) by (rule on_subscription_changed_valid)
  next
    case c then show ?thesis using assms(2) by (rule on_card_updated_valid)
  next
    case d then show ?thesis using assms(2) by (simp add: on_unrecognized_def)
  qed
qed

lemma process_stripe_event_valid:
  assumes "process_stripe_event s event_id = Inr s'"
    and "list_all payment_state_constraint (customers s)"
  shows "list_all payment_state_constraint (customers s')"
proof -
  from assms(1) obtain event0 where g: "get_event (events s) event_id = Inr event0"
    unfolding process_stripe_event_def try_bind_Inr_iff by blast
  let ?event = "event0\<lparr>status := PENDING\<rparr>"
  from process_stripe_event_settle [OF g] assms(1)
  have c: "customers s' = fst (except_exception (customers s) ?event (dispatch (customers s) ?event))"
    by auto
  show ?thesis
  proof (cases "dispatch (customers s) ?event")
    case (Inl e)
    with c assms(2) show ?thesis by (simp add: except_exception_def)
  next
    case (Inr r)
    then have "dispatch (customers s) ?event = Inr (fst r, snd r)" by simp
    from dispatch_valid [OF this assms(2)] c Inr show ?thesis by (simp add: except_exception_def)
  qed
qed

lemma ensure_customer_id_valid:
  assumes "ensure_customer_id rows customer stripe_customer = Inr (customer', rows')"
    and "list_all payment_state_constraint rows"
  shows "list_all payment_state_constraint rows'"
proof -
  from assms(1) consider (same) "rows' = rows"
    | (saved) c where "save_customer c rows = Inr rows'"
    unfolding ensure_customer_id_def by (auto split: if_splits sum.splits option.splits)
  then show ?thesis
  proof cases
    case same
    with assms(2) show ?thesis by simp
  next
    case saved
    then show ?thesis using assms(2) by (rule save_customer_valid)
  qed
qed

lemma record_subscription_valid:
  assumes "record_subscription rows customer subscription = (out, rows')"
    and "list_all payment_state_constraint rows"
  shows "list_all payment_state_constraint rows'"
proof -
  from assms(1) consider (same) "rows' = rows"
    | (saved) c where "save_customer c rows = Inr rows'"
    unfolding record_subscription_def by (auto split: if_splits sum.splits)
  then show ?thesis
  proof cases
    case same
    with assms(2) show ?thesis by simp
  next
    case saved
    then show ?thesis using assms(2) by (rule save_customer_valid)
  qed
qed

lemma create_subscription_post_valid:
  assumes "create_subscription_post rows k new_plan stripe_customer stripe_subscription sync = (out, rows')"
    and "list_all payment_state_constraint rows"
  shows "list_all payment_state_constraint rows'"
proof -
  from assms(1) consider (same) "rows' = rows"
    | (ensured) customer0 customer where
        "ensure_customer_id rows customer0 stripe_customer = Inr (customer, rows')"
    | (recorded) customer0 customer rows1 c subscription where
        "ensure_customer_id rows customer0 stripe_customer = Inr (customer, rows1)"
        "record_subscription rows1 c subscription = (out, rows')"
    unfolding create_subscription_post_def
    by (auto split: option.splits sum.splits prod.splits)
  then show ?thesis
  proof cases
    case same
    with assms(2) show ?thesis by simp
  next
    case ensured
    then show ?thesis using assms(2) by (rule ensure_customer_id_valid)
  next
    case recorded
    from ensure_customer_id_valid [OF recorded(1) assms(2)]
    show ?thesis by (rule record_subscription_valid [OF recorded(2)])
  qed
qed

lemma cure_with_invoice_valid:
  assumes "cure_with_invoice rows customer invoice = (out, rows')"
    and "list_all payment_state_constraint rows"
  shows "list_all payment_state_constraint rows'"
proof -
  from assms(1) consider (same) "rows' = rows"
    | (saved) c where "save_customer c rows = Inr rows'"
    unfolding cure_with_invoice_def by (auto split: if_splits sum.splits)
  then show ?thesis
  proof cases
    case same
    with assms(2) show ?thesis by simp
  next
    case saved
    then show ?thesis using assms(2) by (rule save_customer_valid)
  qed
qed

lemma cure_failed_card_post_valid:
  assumes "cure_failed_card_post rows k has_payment_method replace_card retry_invoice = (out, rows')"
    and "list_all payment_state_constraint rows"
  shows "list_all payment_state_constraint rows'"
proof -
  from assms(1) consider (same) "rows' = rows"
    | (saved) c where "save_customer c rows = Inr rows'"
    | (cured) c rows1 customer invoice where
        "save_customer c rows = Inr rows1"
        "cure_with_invoice rows1 customer invoice = (out, rows')"
    unfolding cure_failed_card_post_def
    by (auto split: if_splits option.splits sum.splits)
  then show ?thesis
  proof cases
    case same
    with assms(2) show ?thesis by simp
  next
    case saved
    then show ?thesis using assms(2) by (rule save_customer_valid)
  next
    case cured
    from save_customer_valid [OF cured(1) assms(2)]
    show ?thesis by (rule cure_with_invoice_valid [OF cured(2)])
  qed
qed

lemma cancel_subscription_post_valid:
  assumes "cancel_subscription_post rows k modify = (out, rows')"
    and "list_all payment_state_constraint rows"
  shows "list_all payment_state_constraint rows'"
proof -
  from assms(1) consider (same) "rows' = rows"
    | (saved) c where "save_customer c rows = Inr rows'"
    unfolding cancel_subscription_post_def cancel_subscription_def
    by (auto simp: try_bind_Inr_iff split: if_splits option.splits sum.splits)
  then show ?thesis
  proof cases
    case same
    with assms(2) show ?thesis by simp
  next
    case saved
    then show ?thesis using assms(2) by (rule save_customer_valid)
  qed
qed

lemma reactivate_subscription_post_valid:
  assumes "reactivate_subscription_post now rows k reactivate = (out, rows')"
    and "list_all payment_state_constraint rows"
  shows "list_all payment_state_constraint rows'"
proof -
  from assms(1) consider (same) "rows' = rows"
    | (saved) c where "save_customer c rows = Inr rows'"
    unfolding reactivate_subscription_post_def
    by (auto split: if_splits option.splits sum.splits)
  then show ?thesis
  proof cases
    case same
    with assms(2) show ?thesis by simp
  next
    case saved
    then show ?thesis using assms(2) by (rule save_customer_valid)
  qed
qed

lemma replace_card_post_valid:
  assumes "replace_card_post rows k has_payment_method replace_card = (out, rows')"
    and "list_all payment_state_constraint rows"
  shows "list_all payment_state_constraint rows'"
proof -
  from assms(1) consider (same) "rows' = rows"
    | (saved) c where "save_customer c rows = Inr rows'"
    unfolding replace_card_post_def
    by (auto split: if_splits option.splits sum.splits)
  then show ?thesis
  proof cases
    case same
    with assms(2) show ?thesis by simp
  next
    case saved
    then show ?thesis using assms(2) by (rule save_customer_valid)
  qed
qed

lemma reachable_valid:
  "reachable rows \<Longrightarrow> list_all payment_state_constraint rows"
proof (induction rule: reachable.induct)
  case initial
  show ?case by simp
next
  case (created rows c rows')
  from insert_customer_valid [OF created(2) created(3)] show ?case .
next
  case (event_processed s event_id s')
  from process_stripe_event_valid [OF event_processed(2) event_processed(3)] show ?case .
next
  case (subscription_created rows k new_plan stripe_customer stripe_subscription sync out rows')
  from create_subscription_post_valid [OF subscription_created(2) subscription_created(3)] show ?case .
next
  case (card_cured rows k has_payment_method replace_card retry_invoice out rows')
  from cure_failed_card_post_valid [OF card_cured(2) card_cured(3)] show ?case .
next
  case (subscription_canceled rows k modify out rows')
  from cancel_subscription_post_valid [OF subscription_canceled(2) subscription_canceled(3)] show ?case .
next
  case (subscription_reactivated rows now k reactivate out rows')
  from reactivate_subscription_post_valid [OF subscription_reactivated(2) subscription_reactivated(3)]
  show ?case .
next
  case (card_replaced rows k has_payment_method replace_card out rows')
  from replace_card_post_valid [OF card_replaced(2) card_replaced(3)] show ?case .
qed

text \<open>
  C6. In every Customer table that can be reached by creating customers, processing
  events and running the command handlers, each customer whose payment state is not OFF
  has a subscription id; and the storage rejects, with \<open>IntegrityError\<close>, the save or
  the insertion of a row whose payment state is not OFF and whose subscription id is
  absent.
\<close>

theorem payment_state_invariant:
  assumes "reachable rows"
  shows "(\<forall>c \<in> set rows. payment_state c \<noteq> OFF \<longrightarrow> subscription_id c \<noteq> None)
       \<and> (\<forall>c. payment_state c \<noteq> OFF \<and> subscription_id c = None \<longrightarrow>
              save_customer c rows = Inl IntegrityError
            \<and> insert_customer c rows = Inl IntegrityError)"
proof -
  from reachable_valid [OF assms] have "\<forall>c \<in> set rows. payment_state_constraint c"
    by (simp add: list_all_iff)
  then have "\<forall>c \<in> set rows. payment_state c \<noteq> OFF \<longrightarrow> subscription_id c \<noteq> None"
    by (simp add: payment_state_constraint_def)
  moreover have "\<forall>c. payment_state c \<noteq> OFF \<and> subscription_id c = None \<longrightarrow>
              save_customer c rows = Inl IntegrityError
            \<and> insert_customer c rows = Inl IntegrityError"
    by (simp add: save_customer_def insert_customer_def payment_state_constraint_def)
  ultimately show ?thesis by blast
qed

theorem payment_state_invariant_witness:
  "reachable [paying_customer\<lparr>payment_state := REQUIRES_PAYMENT_METHOD\<rparr>, new_customer]
   \<and> payment_state (paying_customer\<lparr>payment_state := REQUIRES_PAYMENT_METHOD\<rparr>) \<noteq> OFF
   \<and> subscription_id (paying_customer\<lparr>payment_state := REQUIRES_PAYMENT_METHOD\<rparr>) \<noteq> None
   \<and> save_customer (new_customer\<lparr>payment_state := OK\<rparr>)
        [paying_customer\<lparr>payment_state := REQUIRES_PAYMENT_METHOD\<rparr>, new_customer]
       = Inl IntegrityError
   \<and> insert_customer (new_customer\<lparr>payment_state := OK\<rparr>)
        [paying_customer\<lparr>payment_state := REQUIRES_PAYMENT_METHOD\<rparr>, new_customer]
       = Inl IntegrityError"
proof -
  let ?sub = "JObj [(''id'', JStr ''sub''), (''status'', JStr ''past_due'')]"
  let ?e = "webhook_event ''customer.subscription.updated'' ?sub"
  let ?rows = "[paying_customer\<lparr>payment_state := REQUIRES_PAYMENT_METHOD\<rparr>, new_customer]"
  have "insert_customer paying_customer [] = Inr [paying_customer]"
    by (simp add: insert_customer_def payment_state_constraint_def paying_customer_def)
  with reachable.initial have "reachable [paying_customer]"
    by (rule reachable.created)
  moreover have "insert_customer new_customer [paying_customer] = Inr [paying_customer, new_customer]"
    by (simp add: insert_customer_def payment_state_constraint_def new_customer_def)
  ultimately have "reachable [paying_customer, new_customer]"
    by (rule reachable.created)
  then have r0: "reachable (customers (webhook_store ?e))"
    by (simp add: webhook_store_def)
  have g: "get_event (events (webhook_store ?e)) 1 = Inr ?e"
    by (simp add: get_event_def objects_get_def webhook_store_def webhook_event_def)
  have d: "dispatch [paying_customer, new_customer] (?e\<lparr>status := PENDING\<rparr>)
         = Inr (?rows, ?e\<lparr>status := PROCESSED\<rparr>)"
    by (simp add: dispatch_def on_subscription_changed_def on_subscription_status_def
          payload_object_def webhook_event_def get_by_subscription_id_def objects_get_def
          save_customer_def payment_state_constraint_def paying_customer_def new_customer_def)
  from process_stripe_event_settle [OF g] obtain s' where
    p: "process_stripe_event (webhook_store ?e) 1 = Inr s'" and
    c: "customers s' = ?rows"
    by (auto simp: webhook_store_def d except_exception_def)
  from reachable.event_processed [OF r0 p] c have r: "reachable ?rows"
    by simp
  have m: "paying_customer\<lparr>payment_state := REQUIRES_PAYMENT_METHOD\<rparr> \<in> set ?rows"
    by simp
  have v: "payment_state (new_customer\<lparr>payment_state := OK\<rparr>) \<noteq> OFF
           \<and> subscription_id (new_customer\<lparr>payment_state := OK\<rparr>) = None"
    by (simp add: new_customer_def)
  from payment_state_invariant [OF r, THEN conjunct1, rule_format, OF m]
  have "subscription_id (paying_customer\<lparr>payment_state := REQUIRES_PAYMENT_METHOD\<rparr>) \<noteq> None"
    by simp
  moreover from payment_state_invariant [OF r, THEN conjunct2, rule_format, OF v]
  have "save_customer (new_customer\<lparr>payment_state := OK\<rparr>) ?rows = Inl IntegrityError
      \<and> insert_customer (new_customer\<lparr>payment_state := OK\<rparr>) ?rows = Inl IntegrityError" .
  ultimately show ?thesis using r by simp
qed

end
